theory Spec2Isabelle
  imports Main "HOL-Library.Word"
begin

section \<open>MiniWallet: a shallow embedding of \<^verbatim>\<open>src/MiniWallet/MiniWallet.cpp\<close>\<close>

text \<open>
  The daemon talks to a front-end through files and to a wallet engine through an
  observer interface. The file system is a map from path names to file contents. The
  engine, the node proxy, the currency's parsers and the helpers of \<^verbatim>\<open>WalletHelper\<close>
  are declared outside this source file: what they answer is taken as a parameter
  (the records \<open>Currency\<close>, \<open>engine\<close> and \<open>os\<close> below), and every call the daemon
  makes to them is written to a list of events, in call order.
\<close>

subsection \<open>Exceptions\<close>

text \<open>
  The first three are \<^verbatim>\<open>std::exception\<close>s and carry their \<^verbatim>\<open>what()\<close>;
  \<open>Unknown_exception\<close> is anything else, which only a \<^verbatim>\<open>catch (...)\<close> catches.
\<close>

datatype exn =
    Runtime_error string
  | Filesystem_error string
  | System_error string
  | Unknown_exception

text \<open>An error code is its message; \<open>None\<close> is the code that converts to false.\<close>

type_synonym error_code = "string option"

subsection \<open>The file system\<close>

type_synonym path = string
type_synonym fs = "path \<rightharpoonup> string"

definition fs_exists :: "fs \<Rightarrow> path \<Rightarrow> bool" where
  "fs_exists fs p = (fs p \<noteq> None)"

text \<open>
  \<^verbatim>\<open>boost::filesystem::rename(from, to)\<close>: throws when \<open>from\<close> does not exist, replaces
  \<open>to\<close> when it exists.
\<close>

definition fs_rename :: "fs \<Rightarrow> path \<Rightarrow> path \<Rightarrow> exn + fs" where
  "fs_rename fs from to =
     (case fs from of
        None \<Rightarrow> Inl (Filesystem_error (''boost::filesystem::rename: '' @ from))
      | Some c \<Rightarrow> Inr ((fs(from := None))(to \<mapsto> c)))"

text \<open>
  \<^verbatim>\<open>boost::filesystem::remove(p)\<close>: \<open>false\<close> when \<open>p\<close> did not exist, \<open>true\<close> when it
  was removed.
\<close>

definition fs_remove :: "fs \<Rightarrow> path \<Rightarrow> bool \<times> fs" where
  "fs_remove fs p = (fs p \<noteq> None, fs(p := None))"

text \<open>
  \<^verbatim>\<open>boost::filesystem::unique_path(model)\<close> replaces every percent sign of the model,
  from left to right, by a random hexadecimal digit; \<open>rnd\<close> is the supply of digits and
  \<open>i\<close> the index of the next one.
\<close>

fun unique_path :: "(nat \<Rightarrow> char) \<Rightarrow> nat \<Rightarrow> string \<Rightarrow> string" where
  "unique_path rnd i [] = []"
| "unique_path rnd i (c # cs) =
     (if c = CHR ''%'' then rnd i # unique_path rnd (Suc i) cs
      else c # unique_path rnd i cs)"

subsection \<open>Events: the calls the daemon makes, in order\<close>

type_synonym uint64_t = "64 word"

datatype event =
    Rename path path
  | Remove path
  | Write path string
  | Wait nat
  | ImportLegacyKeys path
  | InitAndLoad string
  | InitAndGenerate
  | StoreWallet path
  | WalletSave
  | Shutdown
  | SendTransaction "(string \<times> uint64_t) list" uint64_t string uint64_t uint64_t
  | GetTransaction uint64_t
  | ProgressUpdate "32 word"

subsection \<open>\<^verbatim>\<open>TransferCommand\<close>\<close>

text \<open>
  The parsers of \<^verbatim>\<open>Common\<close> and \<^verbatim>\<open>Currency\<close> live outside this file:
  \<open>fromString\<close> is \<^verbatim>\<open>Common::fromString<size_t>\<close>, \<open>parseAmount\<close> and
  \<open>parseAccountAddressString\<close> are the currency's, \<open>createTxExtraWithPaymentId\<close>
  takes the payment id and the extra bytes so far and gives the new extra bytes.
  \<open>None\<close> and \<open>False\<close> are their \<^verbatim>\<open>false\<close> returns.
\<close>

record Currency =
  minimumFee :: uint64_t
  fromString :: "string \<Rightarrow> uint64_t option"
  parseAmount :: "string \<Rightarrow> uint64_t option"
  parseAccountAddressString :: "string \<Rightarrow> bool"
  createTxExtraWithPaymentId :: "string \<Rightarrow> string \<Rightarrow> string option"

record TransferCommand =
  fake_outs_count :: uint64_t
  dsts :: "(string \<times> uint64_t) list"
  extra :: string
  fee :: uint64_t

definition TransferCommand_new :: "Currency \<Rightarrow> TransferCommand" where
  "TransferCommand_new cur =
     \<lparr>fake_outs_count = 0, dsts = [], extra = [], fee = minimumFee cur\<rparr>"

text \<open>
  The \<^verbatim>\<open>while (!ar.eof())\<close> loop of \<^verbatim>\<open>parseArguments\<close>, on the arguments not yet
  read. \<open>None\<close> is \<^verbatim>\<open>return false\<close>: every error branch logs and returns false, and
  \<^verbatim>\<open>ar.next()\<close> at the end of the arguments throws, which the function catches and
  answers with false too (so a last argument without a value is refused whether or not
  it is an address).
\<close>

fun parse_loop :: "Currency \<Rightarrow> string list \<Rightarrow> TransferCommand \<Rightarrow> TransferCommand option" where
  "parse_loop cur [] cmd = Some cmd"
| "parse_loop cur [arg] cmd = None"
| "parse_loop cur (arg # val # rest) cmd =
     (if arg \<noteq> [] \<and> hd arg = CHR ''-'' then
        (if arg = ''-p'' then
           (case createTxExtraWithPaymentId cur val (extra cmd) of
              None \<Rightarrow> None
            | Some ex \<Rightarrow> parse_loop cur rest (cmd\<lparr>extra := ex\<rparr>))
         else if arg = ''-f'' then
           (case parseAmount cur val of
              None \<Rightarrow> None
            | Some f \<Rightarrow>
                if f < minimumFee cur then None
                else parse_loop cur rest (cmd\<lparr>fee := f\<rparr>))
         else parse_loop cur rest cmd)
      else if \<not> parseAccountAddressString cur arg then None
      else
        (case parseAmount cur val of
           None \<Rightarrow> None
         | Some a \<Rightarrow>
             if a = 0 then None
             else parse_loop cur rest (cmd\<lparr>dsts := dsts cmd @ [(arg, a)]\<rparr>)))"

definition parseArguments :: "Currency \<Rightarrow> string list \<Rightarrow> TransferCommand option" where
  "parseArguments cur args =
     (case args of
        [] \<Rightarrow> None
      | mixin_str # rest \<Rightarrow>
          (case fromString cur mixin_str of
             None \<Rightarrow> None
           | Some n \<Rightarrow>
               (case parse_loop cur rest ((TransferCommand_new cur)\<lparr>fake_outs_count := n\<rparr>) of
                  None \<Rightarrow> None
                | Some cmd \<Rightarrow> if dsts cmd = [] then None else Some cmd)))"

subsection \<open>Collaborators\<close>

text \<open>
  What the operating system and \<^verbatim>\<open>WalletHelper::prepareFileNames\<close> answer.
  \<open>prepareFileNames\<close> gives the key file's name and the wallet file's name for a
  requested path; \<open>rnd\<close> feeds \<open>unique_path\<close>; \<open>open_fails p\<close> says that opening a
  stream on \<open>p\<close> fails; a failed open is a branch of the model at every open of a
  stream, whether or not the source tests the stream. \<open>read_password\<close> is the password typed at the prompt, if
  reading it succeeds; \<open>fromString_uint16_t\<close> is the throwing
  \<^verbatim>\<open>Common::fromString<uint16_t>\<close>; \<open>RPC_DEFAULT_PORT\<close> is the constant of that name.
\<close>

record os =
  prepareFileNames :: "string \<Rightarrow> string \<times> string"
  rnd :: "nat \<Rightarrow> char"
  open_fails :: "path \<Rightarrow> bool"
  read_password :: "string option"
  fromString_uint16_t :: "string \<Rightarrow> exn + 16 word"
  RPC_DEFAULT_PORT :: "16 word"

text \<open>
  What the wallet engine and the node answer during one operation.
  \<open>save_result\<close> is the bytes \<^verbatim>\<open>save\<close> has put on the stream and then either the
  exception it throws or the error code of \<^verbatim>\<open>saveCompleted\<close>;
  \<open>initAndLoad_result stream password\<close> is the exception or the code of
  \<^verbatim>\<open>initCompleted\<close>; \<open>importLegacyKeys\<close> takes what the key file holds (if it is
  there) and the password and gives the imported stream;
  \<open>WALLET_LEGACY_INVALID_TRANSACTION_ID\<close> is the constant of that name.
\<close>

record engine =
  initAndLoad_result :: "string \<Rightarrow> string \<Rightarrow> exn + error_code"
  initAndGenerate_result :: "exn + error_code"
  importLegacyKeys :: "string option \<Rightarrow> string \<Rightarrow> exn + string"
  save_result :: "string \<times> (exn + error_code)"
  sendTransaction_result :: "exn + uint64_t"
  WALLET_LEGACY_INVALID_TRANSACTION_ID :: uint64_t
  sendCompleted_result :: error_code
  transaction_hash :: string
  getAddress :: string
  balance_result :: "exn + string \<times> string"
  node_init_result :: error_code

subsection \<open>The session: the fields of \<^verbatim>\<open>mini_wallet\<close>\<close>

record mini_wallet =
  m_wallet_file_arg :: string
  m_generate_new :: string
  m_daemon_address :: string
  m_daemon_host :: string
  m_daemon_port :: "16 word"
  m_wallet_file :: string
  m_wallet_file_gui :: string
  m_pwd_arg :: string
  m_walletSynchronized :: bool

text \<open>The constructor: strings empty, port \<open>0\<close>, not synchronized.\<close>

definition mini_wallet_new :: mini_wallet where
  "mini_wallet_new =
     \<lparr>m_wallet_file_arg = [], m_generate_new = [], m_daemon_address = [],
      m_daemon_host = [], m_daemon_port = 0, m_wallet_file = [], m_wallet_file_gui = [],
      m_pwd_arg = [], m_walletSynchronized = False\<rparr>"

subsection \<open>Persisting\<close>

text \<open>
  \<^verbatim>\<open>walletSaveWrapper\<close>: the bytes put on the stream, and the code of
  \<^verbatim>\<open>saveCompleted\<close>; a \<^verbatim>\<open>std::exception\<close> becomes the code
  \<^verbatim>\<open>invalid_argument\<close>, anything else leaves the function as it is.
\<close>

definition walletSaveWrapper :: "engine \<Rightarrow> string \<times> (exn + error_code)" where
  "walletSaveWrapper eng =
     (case save_result eng of
        (bytes, Inl Unknown_exception) \<Rightarrow> (bytes, Inl Unknown_exception)
      | (bytes, Inl e) \<Rightarrow> (bytes, Inr (Some ''Invalid argument''))
      | (bytes, Inr ec) \<Rightarrow> (bytes, Inr ec))"

definition tempFile_of :: "os \<Rightarrow> path \<Rightarrow> path" where
  "tempFile_of os walletFilename = unique_path (rnd os) 0 (walletFilename @ ''.tmp.%%%%-%%%%'')"

text \<open>
  \<^verbatim>\<open>mini_wallet::saveWrapper\<close>. \<^verbatim>\<open>openOutputFileStream\<close> returns false when the
  open fails and throws nothing, and its result is dropped: the handler around it is
  never entered, and the save goes on with a stream that is not open, whose bytes reach
  no file. Every exception inside is caught by the outer \<^verbatim>\<open>catch (...)\<close>, which
  returns false.
\<close>

definition saveWrapper :: "os \<Rightarrow> engine \<Rightarrow> mini_wallet \<Rightarrow> string \<Rightarrow> fs \<Rightarrow> bool \<times> fs \<times> event list" where
  "saveWrapper os eng w m_walletFilename fs =
     (if \<not> m_walletSynchronized w then (False, fs, [])
      else
        let walletFilename = m_walletFilename @ ''.wallet'';
            tempFile = tempFile_of os walletFilename;
            moved = fs_exists fs walletFilename;
            ev1 = (if moved then [Rename walletFilename tempFile] else [])
        in
        (case (if moved then fs_rename fs walletFilename tempFile else Inr fs) of
           Inl e \<Rightarrow> (False, fs, ev1)
         | Inr fs1 \<Rightarrow>
             (let opened = \<not> open_fails os walletFilename;
                  bytes = fst (walletSaveWrapper eng);
                  fs2 = (if opened then fs1(walletFilename \<mapsto> bytes) else fs1)
              in
              (case snd (walletSaveWrapper eng) of
                 Inl e \<Rightarrow> (False, fs2, ev1 @ [WalletSave])
               | Inr (Some saveError) \<Rightarrow>
                   (let fs3 = snd (fs_remove fs2 walletFilename);
                        ev2 = ev1 @ [WalletSave, Remove walletFilename, Rename tempFile walletFilename]
                    in
                    (case fs_rename fs3 tempFile walletFilename of
                       Inl e \<Rightarrow> (False, fs3, ev2)
                     | Inr fs4 \<Rightarrow> (False, fs4, ev2)))
               | Inr None \<Rightarrow>
                   (let fs3 = snd (fs_remove fs2 tempFile)
                    in (True, fs3, ev1 @ [WalletSave, Remove tempFile]))))))"

text \<open>
  Modelled from the spec: \<^verbatim>\<open>WalletHelper::storeWallet\<close>, which \<^verbatim>\<open>transferGui\<close>,
  \<^verbatim>\<open>new_wallet\<close> and \<^verbatim>\<open>tryToOpenWalletOrLoadKeysOrThrow\<close> call, is declared outside
  this source file. The spec gives its discipline: rename the existing wallet file to a
  temporary name, write the new content to the canonical name, remove the temporary only
  on confirmed success; on failure delete the half-written canonical file, rename the
  temporary back and surface the error. A failure is an open that fails, an exception of
  the engine or an error code of \<^verbatim>\<open>saveCompleted\<close>.
\<close>

definition storeWallet :: "os \<Rightarrow> engine \<Rightarrow> path \<Rightarrow> fs \<Rightarrow> (exn + unit) \<times> fs" where
  "storeWallet os eng walletFilename fs =
     (let tempFile = tempFile_of os walletFilename;
          restore = (\<lambda>f. case fs_rename (f(walletFilename := None)) tempFile walletFilename of
                           Inl e \<Rightarrow> f(walletFilename := None)
                         | Inr f' \<Rightarrow> f')
      in
      (case (if fs_exists fs walletFilename then fs_rename fs walletFilename tempFile
             else Inr fs) of
         Inl e \<Rightarrow> (Inl e, fs)
       | Inr fs1 \<Rightarrow>
           (if open_fails os walletFilename then
              (Inl (Runtime_error (''error opening file: '' @ walletFilename)), restore fs1)
            else
              (case save_result eng of
                 (bytes, Inl e) \<Rightarrow> (Inl e, restore (fs1(walletFilename \<mapsto> bytes)))
               | (bytes, Inr (Some saveError)) \<Rightarrow>
                   (Inl (System_error saveError), restore (fs1(walletFilename \<mapsto> bytes)))
               | (bytes, Inr None) \<Rightarrow>
                   (Inr (), (fs1(walletFilename \<mapsto> bytes))(tempFile := None))))))"

subsection \<open>Transfers\<close>

text \<open>
  \<^verbatim>\<open>transferGui\<close> returns a \<^verbatim>\<open>std::string\<close> from seven places: the hash of the
  transaction from the last one, a message from the six others. The reply keeps which;
  \<open>reply_text\<close> is the string returned.
\<close>

datatype transfer_reply = Reply_hash string | Reply_error string

fun reply_text :: "transfer_reply \<Rightarrow> string" where
  "reply_text (Reply_hash h) = h"
| "reply_text (Reply_error m) = m"

text \<open>The three handlers of \<^verbatim>\<open>transferGui\<close>, and the one around \<^verbatim>\<open>storeWallet\<close>.\<close>

fun caught :: "exn \<Rightarrow> transfer_reply" where
  "caught (Runtime_error m) = Reply_error m"
| "caught (Filesystem_error m) = Reply_error m"
| "caught (System_error m) = Reply_error m"
| "caught Unknown_exception = Reply_error ''unknown error''"

definition transferGui :: "Currency \<Rightarrow> os \<Rightarrow> engine \<Rightarrow> mini_wallet \<Rightarrow> string list \<Rightarrow> fs \<Rightarrow> transfer_reply \<times> fs \<times> event list" where
  "transferGui cur os eng w args fs =
     (case parseArguments cur args of
        None \<Rightarrow> (Reply_error ''Parse error'', fs, [])
      | Some cmd \<Rightarrow>
          (let send = SendTransaction (dsts cmd) (fee cmd) (extra cmd) (fake_outs_count cmd) 0
           in
           (case sendTransaction_result eng of
              Inl e \<Rightarrow> (caught e, fs, [send])
            | Inr tx \<Rightarrow>
                (if tx = WALLET_LEGACY_INVALID_TRANSACTION_ID eng then
                   (Reply_error ''Can't send money'', fs, [send])
                 else
                   (case sendCompleted_result eng of
                      Some sendError \<Rightarrow> (Reply_error sendError, fs, [send])
                    | None \<Rightarrow>
                        (let ev = [send, GetTransaction tx, StoreWallet (m_wallet_file w)]
                         in
                         (case storeWallet os eng (m_wallet_file w) fs of
                            (Inl e, fs') \<Rightarrow> (caught e, fs', ev)
                          | (Inr u, fs') \<Rightarrow> (Reply_hash (transaction_hash eng), fs', ev))))))))"

definition transferWrapper :: "Currency \<Rightarrow> os \<Rightarrow> engine \<Rightarrow> mini_wallet \<Rightarrow> string list \<Rightarrow> fs \<Rightarrow> transfer_reply \<times> fs \<times> event list" where
  "transferWrapper cur os eng w args fs = transferGui cur os eng w args fs"

subsection \<open>Reset, synchronization, balance\<close>

text \<open>
  \<^verbatim>\<open>reset\<close> clears the flag first, then saves the wallet to a string stream and, when
  the save reports no error, shuts the engine down and loads it again from the stream.
  It catches \<^verbatim>\<open>std::exception\<close> only.
\<close>

definition reset :: "engine \<Rightarrow> mini_wallet \<Rightarrow> (exn + bool) \<times> mini_wallet \<times> event list" where
  "reset eng w =
     (let w1 = w\<lparr>m_walletSynchronized := False\<rparr>
      in
      (case save_result eng of
         (ss, Inl Unknown_exception) \<Rightarrow> (Inl Unknown_exception, w1, [WalletSave])
       | (ss, Inl e) \<Rightarrow> (Inr False, w1, [WalletSave])
       | (ss, Inr (Some saveError)) \<Rightarrow> (Inr True, w1, [WalletSave])
       | (ss, Inr None) \<Rightarrow>
           (let ev = [WalletSave, Shutdown, InitAndLoad ss]
            in
            (case initAndLoad_result eng ss (m_pwd_arg w1) of
               Inl Unknown_exception \<Rightarrow> (Inl Unknown_exception, w1, ev)
             | Inl e \<Rightarrow> (Inr False, w1, ev)
             | Inr ec \<Rightarrow> (Inr True, w1, ev)))))"

definition resetWrapper :: "engine \<Rightarrow> mini_wallet \<Rightarrow> (exn + bool) \<times> mini_wallet \<times> event list" where
  "resetWrapper eng w =
     (case reset eng w of
        (Inl e, w', ev) \<Rightarrow> (Inl e, w', ev)
      | (Inr b, w', ev) \<Rightarrow> (Inr True, w', ev))"

definition synchronizationCompleted :: "mini_wallet \<Rightarrow> mini_wallet" where
  "synchronizationCompleted w = w\<lparr>m_walletSynchronized := True\<rparr>"

definition synchronizationProgressUpdated :: "mini_wallet \<Rightarrow> 32 word \<Rightarrow> 32 word \<Rightarrow> event list" where
  "synchronizationProgressUpdated w current total_count =
     (if \<not> m_walletSynchronized w then [ProgressUpdate current] else [])"

text \<open>\<open>balance_result\<close> is the two formatted amounts, or what the engine throws.\<close>

definition getBalance :: "engine \<Rightarrow> mini_wallet \<Rightarrow> string" where
  "getBalance eng w =
     (if \<not> m_walletSynchronized w then []
      else
        (case balance_result eng of
           Inl e \<Rightarrow> []
         | Inr (balance, locked) \<Rightarrow> balance @ ''|'' @ locked))"

text \<open>
  The operations that run on the session once the daemon is up, each with the answers
  the engine gives while it runs. The other members (\<^verbatim>\<open>getTxs\<close>,
  \<^verbatim>\<open>getTxsCount\<close>, \<^verbatim>\<open>getWalletFile\<close>, \<^verbatim>\<open>getWalletAddress\<close>,
  \<^verbatim>\<open>externalTransactionCreated\<close>, \<^verbatim>\<open>initCompleted\<close>) assign no field and write
  no file.
\<close>

datatype operation =
    ResetWrapper
  | SynchronizationCompleted
  | SynchronizationProgressUpdated "32 word" "32 word"
  | TransferWrapper "string list"
  | SaveWrapper string
  | GetBalance

fun step :: "Currency \<Rightarrow> os \<Rightarrow> engine \<times> operation \<Rightarrow> mini_wallet \<times> fs \<Rightarrow> mini_wallet \<times> fs" where
  "step cur os (eng, ResetWrapper) (w, fs) = (fst (snd (resetWrapper eng w)), fs)"
| "step cur os (eng, SynchronizationCompleted) (w, fs) = (synchronizationCompleted w, fs)"
| "step cur os (eng, SynchronizationProgressUpdated c t) (w, fs) = (w, fs)"
| "step cur os (eng, TransferWrapper args) (w, fs) = (w, fst (snd (transferWrapper cur os eng w args fs)))"
| "step cur os (eng, SaveWrapper name) (w, fs) = (w, fst (snd (saveWrapper os eng w name fs)))"
| "step cur os (eng, GetBalance) (w, fs) = (w, fs)"

fun run :: "Currency \<Rightarrow> os \<Rightarrow> (engine \<times> operation) list \<Rightarrow> mini_wallet \<times> fs \<Rightarrow> mini_wallet \<times> fs" where
  "run cur os [] s = s"
| "run cur os (x # xs) s = run cur os xs (step cur os x s)"

subsection \<open>Opening a wallet: \<^verbatim>\<open>tryToOpenWalletOrLoadKeysOrThrow\<close>\<close>

definition quoted :: "string \<Rightarrow> string" where
  "quoted s = CHR 0x27 # s @ [CHR 0x27]"

definition initAndLoadWallet :: "engine \<Rightarrow> string \<Rightarrow> string \<Rightarrow> exn + error_code" where
  "initAndLoadWallet eng walletFile password = initAndLoad_result eng walletFile password"

text \<open>
  \<^verbatim>\<open>storeWallet\<close> inside its \<^verbatim>\<open>try\<close>: a \<^verbatim>\<open>std::exception\<close> is thrown again as
  the runtime error "error saving wallet file".
\<close>

definition store_or_throw :: "os \<Rightarrow> engine \<Rightarrow> path \<Rightarrow> fs \<Rightarrow> (exn + string) \<times> fs" where
  "store_or_throw os eng walletFileName fs =
     (case storeWallet os eng walletFileName fs of
        (Inl Unknown_exception, fs') \<Rightarrow> (Inl Unknown_exception, fs')
      | (Inl e, fs') \<Rightarrow>
          (Inl (Runtime_error (''error saving wallet file '' @ quoted walletFileName)), fs')
      | (Inr u, fs') \<Rightarrow> (Inr walletFileName, fs'))"

text \<open>
  The branch taken when the wallet does not load and the key file exists: import the
  keys, move both files to their \<^verbatim>\<open>.back\<close> names, load the imported stream, store.
\<close>

definition import_over_wallet :: "os \<Rightarrow> engine \<Rightarrow> path \<Rightarrow> path \<Rightarrow> string \<Rightarrow> fs \<Rightarrow> event list \<Rightarrow> (exn + string) \<times> fs \<times> event list" where
  "import_over_wallet os eng keys_file walletFileName password fs ev0 =
     (let ev1 = ev0 @ [ImportLegacyKeys keys_file]
      in
      (case importLegacyKeys eng (fs keys_file) password of
         Inl e \<Rightarrow> (Inl e, fs, ev1)
       | Inr ss \<Rightarrow>
           (let ev2 = ev1 @ [Rename keys_file (keys_file @ ''.back'')]
            in
            (case fs_rename fs keys_file (keys_file @ ''.back'') of
               Inl e \<Rightarrow> (Inl e, fs, ev2)
             | Inr fs1 \<Rightarrow>
                 (let ev3 = ev2 @ [Rename walletFileName (walletFileName @ ''.back'')]
                  in
                  (case fs_rename fs1 walletFileName (walletFileName @ ''.back'') of
                     Inl e \<Rightarrow> (Inl e, fs1, ev3)
                   | Inr fs2 \<Rightarrow>
                       (let ev4 = ev3 @ [InitAndLoad ss]
                        in
                        (case initAndLoadWallet eng ss password of
                           Inl e \<Rightarrow> (Inl e, fs2, ev4)
                         | Inr (Some initError) \<Rightarrow>
                             (Inl (Runtime_error (''failed to load wallet: '' @ initError)), fs2, ev4)
                         | Inr None \<Rightarrow>
                             (case store_or_throw os eng walletFileName fs2 of
                                (r, fs3) \<Rightarrow> (r, fs3, ev4 @ [StoreWallet walletFileName]))))))))))"

text \<open>The branch taken when there is no wallet file and the key file exists.\<close>

definition import_keys_only :: "os \<Rightarrow> engine \<Rightarrow> path \<Rightarrow> path \<Rightarrow> string \<Rightarrow> fs \<Rightarrow> (exn + string) \<times> fs \<times> event list" where
  "import_keys_only os eng keys_file walletFileName password fs =
     (let ev1 = [ImportLegacyKeys keys_file]
      in
      (case importLegacyKeys eng (fs keys_file) password of
         Inl e \<Rightarrow> (Inl e, fs, ev1)
       | Inr ss \<Rightarrow>
           (let ev2 = ev1 @ [Rename keys_file (keys_file @ ''.back'')]
            in
            (case fs_rename fs keys_file (keys_file @ ''.back'') of
               Inl e \<Rightarrow> (Inl e, fs, ev2)
             | Inr fs1 \<Rightarrow>
                 (let ev3 = ev2 @ [InitAndLoad ss]
                  in
                  (case initAndLoad_result eng ss password of
                     Inl e \<Rightarrow> (Inl e, fs1, ev3)
                   | Inr (Some initError) \<Rightarrow>
                       (Inl (Runtime_error (''failed to load wallet: '' @ initError)), fs1, ev3)
                   | Inr None \<Rightarrow>
                       (case store_or_throw os eng walletFileName fs1 of
                          (r, fs2) \<Rightarrow> (r, fs2, ev3 @ [StoreWallet walletFileName]))))))))"

text \<open>
  The function: \<open>Inl\<close> is the exception thrown, \<open>Inr\<close> the wallet file name
  returned. The input stream on the wallet file fails to open when \<open>open_fails\<close> says
  so or the file is not there.
\<close>

definition tryToOpenWalletOrLoadKeysOrThrow :: "os \<Rightarrow> engine \<Rightarrow> string \<Rightarrow> string \<Rightarrow> fs \<Rightarrow> (exn + string) \<times> fs \<times> event list" where
  "tryToOpenWalletOrLoadKeysOrThrow os eng walletFile password fs =
     (let keys_file = fst (prepareFileNames os walletFile);
          walletFileName = snd (prepareFileNames os walletFile);
          keysExists = fs_exists fs keys_file;
          walletExists = fs_exists fs walletFileName;
          adopt = (\<not> walletExists \<and> \<not> keysExists \<and> fs_exists fs walletFile);
          ev0 = (if adopt then [Rename walletFile walletFileName] else [])
      in
      (case (if adopt then fs_rename fs walletFile walletFileName else Inr fs) of
         Inl e \<Rightarrow>
           (Inl (Runtime_error (''failed to rename file '' @ quoted walletFile @ '' to ''
                                 @ quoted walletFileName)), fs, ev0)
       | Inr fs1 \<Rightarrow>
           (if walletExists \<or> adopt then
              (case (if open_fails os walletFileName then None else fs1 walletFileName) of
                 None \<Rightarrow>
                   (Inl (Runtime_error (''error opening wallet file '' @ quoted walletFileName)),
                    fs1, ev0)
               | Some stream \<Rightarrow>
                   (case initAndLoadWallet eng stream password of
                      Inl e \<Rightarrow> (Inl e, fs1, ev0 @ [InitAndLoad stream])
                    | Inr None \<Rightarrow> (Inr walletFileName, fs1, ev0 @ [InitAndLoad stream])
                    | Inr (Some initError) \<Rightarrow>
                        (if keysExists then
                           import_over_wallet os eng keys_file walletFileName password fs1
                             (ev0 @ [InitAndLoad stream])
                         else
                           (Inl (Runtime_error (''can't load wallet file '' @ quoted walletFileName
                                                 @ '', check password'')),
                            fs1, ev0 @ [InitAndLoad stream]))))
            else if keysExists then
              import_keys_only os eng keys_file walletFileName password fs1
            else
              (Inl (Runtime_error (''wallet file '' @ quoted walletFileName @ '' is not found'')),
               fs1, ev0))))"

subsection \<open>Strings\<close>

text \<open>\<^verbatim>\<open>s.find(needle, pos)\<close>; \<open>None\<close> is \<^verbatim>\<open>npos\<close>.\<close>

fun find_str :: "string \<Rightarrow> string \<Rightarrow> nat option" where
  "find_str needle [] = (if needle = [] then Some 0 else None)"
| "find_str needle (c # cs) =
     (if take (length needle) (c # cs) = needle then Some 0
      else map_option Suc (find_str needle cs))"

definition find_from :: "string \<Rightarrow> string \<Rightarrow> nat \<Rightarrow> nat option" where
  "find_from s needle pos =
     (if length s < pos then None
      else map_option (\<lambda>k. pos + k) (find_str needle (drop pos s)))"

definition isspace :: "char \<Rightarrow> bool" where
  "isspace c = (c \<in> set [CHR 0x20, CHR 0x09, CHR 0x0A, CHR 0x0B, CHR 0x0C, CHR 0x0D])"

definition trim :: "string \<Rightarrow> string" where
  "trim s = rev (dropWhile isspace (rev (dropWhile isspace s)))"

function to_string :: "nat \<Rightarrow> string" where
  "to_string n =
     (if n < 10 then [char_of (48 + n)]
      else to_string (n div 10) @ [char_of (48 + n mod 10)])"
  by pat_completeness auto
termination
  by (relation "measure id") auto

subsection \<open>Start-up: \<^verbatim>\<open>mini_wallet::init\<close>\<close>

text \<open>
  \<^verbatim>\<open>parseUrlAddress\<close> gives the host and the port and always returns true; the
  conversion of the port may throw. Without a colon after the scheme the end of the
  address is looked for from position \<open>0\<close>: when that is before the start of the
  address, the length \<^verbatim>\<open>addrEnd - addrStart\<close> wraps around and \<^verbatim>\<open>substr\<close> takes the
  rest of the string, as it does for \<^verbatim>\<open>npos\<close>.
\<close>

definition parseUrlAddress :: "os \<Rightarrow> string \<Rightarrow> exn + string \<times> 16 word" where
  "parseUrlAddress os url =
     (let addrStart = (case find_from url ''://'' 0 of None \<Rightarrow> 0 | Some pos \<Rightarrow> pos + 3)
      in
      (case find_from url '':'' addrStart of
         Some addrEnd \<Rightarrow>
           (let digits =
                  (case find_from url ''/'' addrEnd of
                     None \<Rightarrow> drop (addrEnd + 1) url
                   | Some portEnd \<Rightarrow> take (portEnd - addrEnd - 1) (drop (addrEnd + 1) url))
            in
            (case fromString_uint16_t os digits of
               Inl e \<Rightarrow> Inl e
             | Inr port \<Rightarrow> Inr (take (addrEnd - addrStart) (drop addrStart url), port)))
       | None \<Rightarrow>
           Inr ((case find_from url ''/'' 0 of
                   None \<Rightarrow> drop addrStart url
                 | Some addrEnd \<Rightarrow>
                     if addrStart \<le> addrEnd then take (addrEnd - addrStart) (drop addrStart url)
                     else drop addrStart url),
                80)))"

record variables_map =
  arg_wallet_file :: string
  arg_generate_new_wallet :: string
  arg_daemon_address :: string
  arg_daemon_host :: string
  arg_password :: "string option"
  arg_daemon_port :: "16 word"

definition handle_command_line :: "variables_map \<Rightarrow> mini_wallet \<Rightarrow> mini_wallet" where
  "handle_command_line vm w =
     w\<lparr>m_wallet_file_arg := arg_wallet_file vm,
       m_generate_new := arg_generate_new_wallet vm,
       m_daemon_address := arg_daemon_address vm,
       m_daemon_host := arg_daemon_host vm,
       m_daemon_port := arg_daemon_port vm\<rparr>"

text \<open>
  The two prompts read lines of standard input until one is accepted. When the input
  ends, \<^verbatim>\<open>getline\<close> leaves the answer empty and the loop never ends: \<open>None\<close>.
  The first character of an empty answer is the terminating zero.
\<close>

fun ask_command :: "string list \<Rightarrow> (char \<times> string list) option" where
  "ask_command [] = None"
| "ask_command (answer # rest) =
     (let c = (case answer of [] \<Rightarrow> CHR 0x00 | x # xs \<Rightarrow> x)
      in if c \<in> set ''OGEoge'' then Some (c, rest) else ask_command rest)"

fun ask_name :: "string list \<Rightarrow> string option" where
  "ask_name [] = None"
| "ask_name (userInput # rest) =
     (if trim userInput = [] then ask_name rest else Some (trim userInput))"

definition writeAddressFile :: "os \<Rightarrow> path \<Rightarrow> string \<Rightarrow> fs \<Rightarrow> bool \<times> fs" where
  "writeAddressFile os addressFilename address fs =
     (if open_fails os addressFilename then (False, fs)
      else (True, fs(addressFilename \<mapsto> address)))"

text \<open>\<^verbatim>\<open>new_wallet\<close> catches \<^verbatim>\<open>std::exception\<close> and returns false.\<close>

definition new_wallet :: "os \<Rightarrow> engine \<Rightarrow> mini_wallet \<Rightarrow> string \<Rightarrow> string \<Rightarrow> fs \<Rightarrow> (exn + bool) \<times> mini_wallet \<times> fs \<times> event list" where
  "new_wallet os eng w wallet_file password fs =
     (let w1 = w\<lparr>m_wallet_file := wallet_file\<rparr>
      in
      (case initAndGenerate_result eng of
         Inl Unknown_exception \<Rightarrow> (Inl Unknown_exception, w1, fs, [InitAndGenerate])
       | Inl e \<Rightarrow> (Inr False, w1, fs, [InitAndGenerate])
       | Inr (Some initError) \<Rightarrow> (Inr False, w1, fs, [InitAndGenerate])
       | Inr None \<Rightarrow>
           (case storeWallet os eng wallet_file fs of
              (Inl Unknown_exception, fs') \<Rightarrow>
                (Inl Unknown_exception, w1, fs', [InitAndGenerate, StoreWallet wallet_file])
            | (Inl e, fs') \<Rightarrow> (Inr False, w1, fs', [InitAndGenerate, StoreWallet wallet_file])
            | (Inr u, fs') \<Rightarrow> (Inr True, w1, fs', [InitAndGenerate, StoreWallet wallet_file]))))"

text \<open>
  The daemon's address in \<^verbatim>\<open>init\<close>: the defaults for host and port, then either
  the host and port parsed from the address given or the address built from host and
  port. The exception, if any, is the one of \<^verbatim>\<open>parseUrlAddress\<close>.
\<close>

definition resolve_daemon :: "os \<Rightarrow> mini_wallet \<Rightarrow> exn option \<times> mini_wallet" where
  "resolve_daemon os w =
     (let w1 = (if m_daemon_host w = [] then w\<lparr>m_daemon_host := ''localhost''\<rparr> else w);
          w2 = (if m_daemon_port w1 = 0 then w1\<lparr>m_daemon_port := RPC_DEFAULT_PORT os\<rparr> else w1)
      in
      if m_daemon_address w2 \<noteq> [] then
        (case parseUrlAddress os (m_daemon_address w2) of
           Inl e \<Rightarrow> (Some e, w2)
         | Inr (host, port) \<Rightarrow> (None, w2\<lparr>m_daemon_host := host, m_daemon_port := port\<rparr>))
      else
        (None, w2\<lparr>m_daemon_address :=
                     ''http://'' @ m_daemon_host w2 @ '':'' @ to_string (unat (m_daemon_port w2))\<rparr>))"

text \<open>The branch of \<^verbatim>\<open>init\<close> that creates a wallet, from the address file's test on.\<close>

definition create_wallet :: "os \<Rightarrow> engine \<Rightarrow> mini_wallet \<Rightarrow> string \<Rightarrow> string \<Rightarrow> fs \<Rightarrow> (exn + bool) \<times> mini_wallet \<times> fs \<times> event list" where
  "create_wallet os eng w walletFileName pwd fs =
     (let walletAddressFile = m_generate_new w @ ''.address''
      in
      if fs_exists fs walletAddressFile then (Inr False, w, fs, [])
      else
        (case new_wallet os eng w walletFileName pwd fs of
           (Inl e, w1, fs1, ev) \<Rightarrow> (Inl e, w1, fs1, ev)
         | (Inr False, w1, fs1, ev) \<Rightarrow> (Inr False, w1, fs1, ev)
         | (Inr True, w1, fs1, ev) \<Rightarrow>
             (Inr True, w1, snd (writeAddressFile os walletAddressFile (getAddress eng) fs1),
              ev @ (if fst (writeAddressFile os walletAddressFile (getAddress eng) fs1)
                    then [Write walletAddressFile (getAddress eng)] else []))))"

text \<open>The branch of \<^verbatim>\<open>init\<close> that opens a wallet; it catches \<^verbatim>\<open>std::exception\<close>.\<close>

definition open_wallet :: "os \<Rightarrow> engine \<Rightarrow> mini_wallet \<Rightarrow> string \<Rightarrow> fs \<Rightarrow> (exn + bool) \<times> mini_wallet \<times> fs \<times> event list" where
  "open_wallet os eng w pwd fs =
     (case tryToOpenWalletOrLoadKeysOrThrow os eng (m_wallet_file_arg w) pwd fs of
        (Inl Unknown_exception, fs1, ev) \<Rightarrow> (Inl Unknown_exception, w, fs1, ev)
      | (Inl e, fs1, ev) \<Rightarrow> (Inr False, w, fs1, ev)
      | (Inr name, fs1, ev) \<Rightarrow>
          (Inr True, w\<lparr>m_wallet_file := name, m_wallet_file_gui := m_wallet_file_arg w\<rparr>,
           fs1, ev))"

text \<open>
  \<^verbatim>\<open>init\<close> from the test of the new wallet's file name on, with the fields of the
  command line (or of the prompts) already in the session and \<open>password\<close> the
  \<^verbatim>\<open>--password\<close> argument if there is one. \<open>Inl\<close> is an exception that leaves
  \<^verbatim>\<open>init\<close>.
\<close>

definition init_wallet :: "os \<Rightarrow> engine \<Rightarrow> string option \<Rightarrow> mini_wallet \<Rightarrow> fs \<Rightarrow> (exn + bool) \<times> mini_wallet \<times> fs \<times> event list" where
  "init_wallet os eng password w fs =
     (let walletFileName =
            (if m_generate_new w \<noteq> [] then snd (prepareFileNames os (m_generate_new w)) else [])
      in
      if m_generate_new w \<noteq> [] \<and> fs_exists fs walletFileName then (Inr False, w, fs, [])
      else
        (case resolve_daemon os w of
           (Some e, w2) \<Rightarrow> (Inl e, w2, fs, [])
         | (None, w3) \<Rightarrow>
             (case (case password of Some p \<Rightarrow> Some p | None \<Rightarrow> read_password os) of
                None \<Rightarrow> (Inr False, w3, fs, [])
              | Some pwd \<Rightarrow>
                  (case node_init_result eng of
                     Some error \<Rightarrow> (Inr False, w3, fs, [])
                   | None \<Rightarrow>
                       (if m_generate_new w3 \<noteq> [] then
                          create_wallet os eng (w3\<lparr>m_pwd_arg := pwd\<rparr>) walletFileName pwd fs
                        else
                          open_wallet os eng (w3\<lparr>m_pwd_arg := pwd\<rparr>) pwd fs)))))"

text \<open>
  \<^verbatim>\<open>init\<close>: the command line, the prompts when neither a wallet file nor a new
  wallet is named, then the rest. \<open>None\<close> is a prompt that never ends.
\<close>

definition init :: "os \<Rightarrow> engine \<Rightarrow> variables_map \<Rightarrow> string list \<Rightarrow> mini_wallet \<Rightarrow> fs \<Rightarrow> ((exn + bool) \<times> mini_wallet \<times> fs \<times> event list) option" where
  "init os eng vm stdin w0 fs =
     (let w = handle_command_line vm w0
      in
      if m_daemon_address w \<noteq> [] \<and> (m_daemon_host w \<noteq> [] \<or> m_daemon_port w \<noteq> 0) then
        Some (Inr False, w, fs, [])
      else if m_generate_new w = [] \<and> m_wallet_file_arg w = [] then
        (case ask_command stdin of
           None \<Rightarrow> None
         | Some (c, rest) \<Rightarrow>
             (if c = CHR ''E'' \<or> c = CHR ''e'' then Some (Inr False, w, fs, [])
              else
                (case ask_name rest of
                   None \<Rightarrow> None
                 | Some userInput \<Rightarrow>
                     (let w1 = (if c = CHR ''g'' \<or> c = CHR ''G'' then w\<lparr>m_generate_new := userInput\<rparr>
                                else w\<lparr>m_wallet_file_arg := userInput\<rparr>)
                      in Some (init_wallet os eng (arg_password vm)
                                 (w1\<lparr>m_wallet_file_gui := userInput\<rparr>) fs)))))
      else Some (init_wallet os eng (arg_password vm) w fs))"

subsection \<open>The polling loops\<close>

text \<open>
  Each helper is a \<^verbatim>\<open>while (true)\<close> around a \<^verbatim>\<open>try\<close> block with a
  \<^verbatim>\<open>catch (...)\<close>. The body of the loop is a function of the session and the files;
  the loop itself takes one set of engine answers for each round it is to run. A round
  of the transaction loop may never end; then the loop does not either.
\<close>

definition reset_helper_body :: "engine \<Rightarrow> string \<Rightarrow> mini_wallet \<times> fs \<Rightarrow> (mini_wallet \<times> fs) \<times> event list" where
  "reset_helper_body eng gui s =
     (let w = fst s; fs = snd s;
          file_name_reset = gui @ ''.reset'';
          claim = Rename file_name_reset (file_name_reset @ ''_'')
      in
      if fs_exists fs file_name_reset then
        (case fs_rename fs file_name_reset (file_name_reset @ ''_'') of
           Inl e \<Rightarrow> ((w, fs), [claim, Wait 2])
         | Inr fs1 \<Rightarrow>
             (case resetWrapper eng w of
                (Inl e, w1, ev) \<Rightarrow> ((w1, fs1), claim # ev @ [Wait 2])
              | (Inr b, w1, ev) \<Rightarrow> ((w1, fs1), claim # ev @ [Wait 60])))
      else ((w, fs), [Wait 5]))"

definition save_helper_body :: "os \<Rightarrow> engine \<Rightarrow> string \<Rightarrow> mini_wallet \<times> fs \<Rightarrow> (mini_wallet \<times> fs) \<times> event list" where
  "save_helper_body os eng gui s =
     (let w = fst s; fs = snd s;
          file_name_save = gui @ ''.save'';
          claim = Rename file_name_save (file_name_save @ ''_'')
      in
      if fs_exists fs file_name_save then
        (case fs_rename fs file_name_save (file_name_save @ ''_'') of
           Inl e \<Rightarrow> ((w, fs), [claim, Wait 2])
         | Inr fs1 \<Rightarrow>
             (case saveWrapper os eng w gui fs1 of
                (b, fs2, ev) \<Rightarrow> ((w, fs2), claim # ev @ [Wait 10])))
      else ((w, fs), [Wait 5]))"

text \<open>
  \<^verbatim>\<open>while (!stream.eof()) stream >> content\<close> on what is left of the stream. An
  extraction skips white space and reads up to the next white space; when the stream
  ends while skipping, the extraction fails and leaves \<open>content\<close> as it is.
\<close>

function read_content :: "string \<Rightarrow> string \<Rightarrow> string" where
  "read_content content stream =
     (let skipped = dropWhile isspace stream
      in
      if skipped = [] then content
      else
        (let word = takeWhile (\<lambda>c. \<not> isspace c) skipped;
             rest = dropWhile (\<lambda>c. \<not> isspace c) skipped
         in if rest = [] then word else read_content word rest))"
  by pat_completeness auto
termination
proof (relation "measure (\<lambda>(content, stream). length stream)")
  show "wf (measure (\<lambda>(content, stream). length stream))"
    by simp
next
  fix content stream :: string and skipped word rest
  assume sk: "skipped = dropWhile isspace stream" and ne: "skipped \<noteq> []"
    and r: "rest = dropWhile (\<lambda>c. \<not> isspace c) skipped"
  from ne obtain c cs where cons: "skipped = c # cs"
    by (cases skipped) auto
  from sk cons have "dropWhile isspace stream = c # cs"
    by simp
  then have "\<not> isspace c"
    by (simp add: dropWhile_eq_Cons_conv)
  then have "rest = dropWhile (\<lambda>c. \<not> isspace c) cs"
    using r cons by simp
  then have "length rest \<le> length cs"
    by (simp add: length_dropWhile_le)
  moreover have "length skipped \<le> length stream"
    using sk by (simp add: length_dropWhile_le)
  ultimately have "length rest < length stream"
    using cons by simp
  then show "((word, rest), content, stream) \<in> measure (\<lambda>(content, stream). length stream)"
    by simp
qed

text \<open>
  The tokenizer of \<^verbatim>\<open>tx_helper\<close>: while the delimiter is found, the text before it is
  a token, filed by the index of the token, and the text up to and including the
  delimiter is erased. The index is a \<^verbatim>\<open>uint8_t\<close>.
\<close>

function tokenize :: "string \<Rightarrow> 8 word \<Rightarrow> string list \<Rightarrow> string list" where
  "tokenize content idx args =
     (case find_from content ''|'' 0 of
        None \<Rightarrow> args
      | Some pos \<Rightarrow>
          (let token = take pos content;
               args1 =
                 (if idx = 0 \<or> idx = 1 \<or> idx = 2 then args @ [token]
                  else if idx = 3 then (if token \<noteq> [] then args @ [''-p'', token] else args)
                  else if idx = 4 then (if token \<noteq> [] then args @ [''-f'', token] else args)
                  else args)
           in tokenize (drop (pos + length ''|'') content) (idx + 1) args1))"
  by pat_completeness auto
termination
proof (relation "measure (\<lambda>(content, idx, args). length content)")
  show "wf (measure (\<lambda>(content, idx, args). length content))"
    by simp
next
  fix content :: string and idx :: "8 word" and args :: "string list" and pos token args1
  assume f: "find_from content ''|'' 0 = Some pos"
  have "find_str ''|'' xs = Some k \<Longrightarrow> k < length xs" for xs k
    by (induction xs arbitrary: k) (auto split: if_splits)
  with f have "pos < length content"
    by (auto simp: find_from_def)
  then show "((drop (pos + length ''|'') content, idx + 1, args1), content, idx, args)
               \<in> measure (\<lambda>(content, idx, args). length content)"
    by simp
qed

declare read_content.simps [simp del] tokenize.simps [simp del]

text \<open>
  The removal of the request: \<^verbatim>\<open>remove\<close> once, then again while it has answered
  false and tries are left, with a second of sleep after each further try.
\<close>

fun remove_retry :: "nat \<Rightarrow> bool \<Rightarrow> path \<Rightarrow> fs \<Rightarrow> fs \<times> event list" where
  "remove_retry 0 statusRemove p fs = (fs, [])"
| "remove_retry (Suc retry) statusRemove p fs =
     (if statusRemove then (fs, [])
      else
        (let r = remove_retry retry (fst (fs_remove fs p)) p (snd (fs_remove fs p))
         in (fst r, Remove p # Wait 1 # snd r)))"

text \<open>
  One round of \<^verbatim>\<open>tx_helper\<close>. When the request file is there, the input stream is
  opened on it. If the open fails, every extraction fails without reaching the end of
  the stream, so \<^verbatim>\<open>while (!stream.eof())\<close> never ends: \<open>None\<close>. Otherwise the
  request is read and cut into arguments, the file is removed, the transfer runs, and
  the reply goes to the output stream on the result file: if that stream is not open
  (the open is not tested), the reply reaches no file. \<open>Write\<close> is among the events
  when the reply has reached the file.
\<close>

definition tx_helper_body :: "Currency \<Rightarrow> os \<Rightarrow> engine \<Rightarrow> string \<Rightarrow> mini_wallet \<times> fs \<Rightarrow> ((mini_wallet \<times> fs) \<times> event list) option" where
  "tx_helper_body cur os eng gui s =
     (let w = fst s; fs = snd s;
          file_name_txcast = gui @ ''.txcast'';
          file_name_txresult = gui @ ''.txresult''
      in
      (case fs file_name_txcast of
         None \<Rightarrow> Some ((w, fs), [Wait 2])
       | Some stream \<Rightarrow>
           (if open_fails os file_name_txcast then None
            else
              (let content = read_content [] stream;
                   args = tokenize content 0 [];
                   removed = remove_retry 3 (fst (fs_remove fs file_name_txcast)) file_name_txcast
                               (snd (fs_remove fs file_name_txcast));
                   sent = transferWrapper cur os eng w args (fst removed);
                   result = reply_text (fst sent);
                   written = \<not> open_fails os file_name_txresult;
                   fs3 = (if written then (fst (snd sent))(file_name_txresult \<mapsto> result)
                          else fst (snd sent))
               in Some ((w, fs3),
                        Remove file_name_txcast # snd removed @ snd (snd sent)
                          @ (if written then [Write file_name_txresult result] else [])
                          @ [Wait 2])))))"

fun reset_helper :: "engine list \<Rightarrow> string \<Rightarrow> mini_wallet \<times> fs \<Rightarrow> (mini_wallet \<times> fs) \<times> event list" where
  "reset_helper [] gui s = (s, [])"
| "reset_helper (eng # engs) gui s =
     (let r = reset_helper_body eng gui s; r' = reset_helper engs gui (fst r)
      in (fst r', snd r @ snd r'))"

fun save_helper :: "os \<Rightarrow> engine list \<Rightarrow> string \<Rightarrow> mini_wallet \<times> fs \<Rightarrow> (mini_wallet \<times> fs) \<times> event list" where
  "save_helper os [] gui s = (s, [])"
| "save_helper os (eng # engs) gui s =
     (let r = save_helper_body os eng gui s; r' = save_helper os engs gui (fst r)
      in (fst r', snd r @ snd r'))"

fun tx_helper :: "Currency \<Rightarrow> os \<Rightarrow> engine list \<Rightarrow> string \<Rightarrow> mini_wallet \<times> fs \<Rightarrow> ((mini_wallet \<times> fs) \<times> event list) option" where
  "tx_helper cur os [] gui s = Some (s, [])"
| "tx_helper cur os (eng # engs) gui s =
     (case tx_helper_body cur os eng gui s of
        None \<Rightarrow> None
      | Some r \<Rightarrow>
          (case tx_helper cur os engs gui (fst r) of
             None \<Rightarrow> None
           | Some r' \<Rightarrow> Some (fst r', snd r @ snd r')))"

subsection \<open>Requests as the transfer receives them\<close>

text \<open>
  The arguments the transaction loop hands to the transfer for a request of one
  destination: the mixin, the address and the amount, then \<^verbatim>\<open>-p\<close> and the payment id
  when one is given, then \<^verbatim>\<open>-f\<close> and the fee when one is given.
\<close>

definition request_args :: "string \<Rightarrow> string \<Rightarrow> string \<Rightarrow> string option \<Rightarrow> string option \<Rightarrow> string list" where
  "request_args mixin address amount paymentId fee_str =
     [mixin, address, amount]
     @ (case paymentId of None \<Rightarrow> [] | Some p \<Rightarrow> [''-p'', p])
     @ (case fee_str of None \<Rightarrow> [] | Some f \<Rightarrow> [''-f'', f])"

text \<open>
  A malformed request: the mixin is not a number, or the address does not parse, or
  the amount is zero or does not parse, or a fee is given that does not parse or is
  below the minimum fee.
\<close>

definition malformed :: "Currency \<Rightarrow> string \<Rightarrow> string \<Rightarrow> string \<Rightarrow> string option \<Rightarrow> bool" where
  "malformed cur mixin address amount fee_str =
     (fromString cur mixin = None
      \<or> parseAccountAddressString cur address = False
      \<or> parseAmount cur amount = Some 0
      \<or> parseAmount cur amount = None
      \<or> (case fee_str of
            None \<Rightarrow> False
          | Some f \<Rightarrow> (case parseAmount cur f of None \<Rightarrow> True | Some v \<Rightarrow> v < minimumFee cur)))"

subsection \<open>A concrete collaborator set\<close>

text \<open>
  Answers used to run the model on concrete inputs: a currency that knows one address
  and a few amounts, an operating system where every open succeeds, an engine where
  every call succeeds.
\<close>

definition example_currency :: Currency where
  "example_currency =
     \<lparr>minimumFee = 100,
      fromString = (\<lambda>s. if s = ''3'' then Some 3 else None),
      parseAmount =
        (\<lambda>s. if s = ''1.5'' then Some 150000
             else if s = ''0.01'' then Some 1000
             else if s = ''0.0001'' then Some 10
             else if s = ''0'' then Some 0 else None),
      parseAccountAddressString = (\<lambda>s. s = ''9xAddr''),
      createTxExtraWithPaymentId = (\<lambda>v ex. if v = ''pay1234'' then Some (ex @ v) else None)\<rparr>"

definition example_os :: os where
  "example_os =
     \<lparr>prepareFileNames = (\<lambda>p. (p @ ''.keys'', p @ ''.wallet'')),
      rnd = (\<lambda>i. CHR ''0''),
      open_fails = (\<lambda>p. False),
      read_password = Some ''secret'',
      fromString_uint16_t = (\<lambda>s. Inr 8081),
      RPC_DEFAULT_PORT = 8081\<rparr>"

definition example_engine :: engine where
  "example_engine =
     \<lparr>initAndLoad_result = (\<lambda>stream password. Inr None),
      initAndGenerate_result = Inr None,
      importLegacyKeys = (\<lambda>keys password. Inr ''imported''),
      save_result = (''new wallet bytes'', Inr None),
      sendTransaction_result = Inr 0,
      WALLET_LEGACY_INVALID_TRANSACTION_ID = - 1,
      sendCompleted_result = None,
      transaction_hash = ''ab12'',
      getAddress = ''9xAddr'',
      balance_result = Inr (''1.00'', ''0.00''),
      node_init_result = None\<rparr>"

text \<open>A session opened on \<^verbatim>\<open>w.wallet\<close>, before and after the first synchronization.\<close>

definition example_session :: mini_wallet where
  "example_session =
     mini_wallet_new\<lparr>m_wallet_file_arg := ''w'', m_wallet_file := ''w.wallet'',
                      m_wallet_file_gui := ''w'', m_pwd_arg := ''secret''\<rparr>"

definition example_synchronized :: mini_wallet where
  "example_synchronized = synchronizationCompleted example_session"

text \<open>An engine that refuses the password, and a command line that asks for a new wallet.\<close>

definition example_wrong_password :: engine where
  "example_wrong_password =
     example_engine\<lparr>initAndLoad_result := (\<lambda>stream password. Inr (Some ''wrong password''))\<rparr>"

definition example_new_wallet :: variables_map where
  "example_new_wallet =
     \<lparr>arg_wallet_file = [], arg_generate_new_wallet = ''w'', arg_daemon_address = [],
      arg_daemon_host = [], arg_password = Some ''secret'', arg_daemon_port = 0\<rparr>"

text \<open>The wallet file alone, and with one request pending for each loop.\<close>

definition example_files :: fs where
  "example_files = [''w.wallet'' \<mapsto> ''old'']"

definition example_pending :: fs where
  "example_pending =
     example_files(''w.reset'' \<mapsto> ''go'', ''w.save'' \<mapsto> ''go'',
                   ''w.txcast'' \<mapsto> ''3|9xAddr|1.5|'')"


section \<open>Properties\<close>

subsection \<open>File names\<close>

text \<open>The temporary name is longer than the name it is made from, so it is another name.\<close>

lemma length_unique_path: "length (unique_path r i s) = length s"
  by (induction s arbitrary: i) simp_all

lemma tempFile_of_neq: "tempFile_of os p \<noteq> p"
proof
  assume "tempFile_of os p = p"
  then have "length (tempFile_of os p) = length p" by simp
  then show False by (simp add: tempFile_of_def length_unique_path)
qed

lemma length_tempFile_of: "length (tempFile_of os p) = length p + 14"
  by (simp add: tempFile_of_def length_unique_path)

lemma save_sentinel_not_temp:
  "name @ ''.save'' \<noteq> tempFile_of os (name @ ''.wallet'')"
  "(name @ ''.save'') @ ''_'' \<noteq> tempFile_of os (name @ ''.wallet'')"
proof -
  show "name @ ''.save'' \<noteq> tempFile_of os (name @ ''.wallet'')"
  proof
    assume "name @ ''.save'' = tempFile_of os (name @ ''.wallet'')"
    then have "length (name @ ''.save'') = length (tempFile_of os (name @ ''.wallet''))"
      by simp
    then show False
      by (simp add: length_tempFile_of)
  qed
  show "(name @ ''.save'') @ ''_'' \<noteq> tempFile_of os (name @ ''.wallet'')"
  proof
    assume "(name @ ''.save'') @ ''_'' = tempFile_of os (name @ ''.wallet'')"
    then have "length ((name @ ''.save'') @ ''_'') = length (tempFile_of os (name @ ''.wallet''))"
      by simp
    then show False
      by (simp add: length_tempFile_of)
  qed
qed

subsection \<open>The synchronized flag\<close>

lemma step_keeps_unsynchronized:
  "snd x \<noteq> SynchronizationCompleted \<Longrightarrow> \<not> m_walletSynchronized (fst s)
     \<Longrightarrow> \<not> m_walletSynchronized (fst (step cur os x s))"
  by (cases "(cur, os, x, s)" rule: step.cases)
     (auto simp: resetWrapper_def reset_def Let_def
           split: prod.splits sum.splits exn.splits option.splits)

lemma run_keeps_unsynchronized:
  "\<forall>x\<in>set ops. snd x \<noteq> SynchronizationCompleted \<Longrightarrow> \<not> m_walletSynchronized (fst s)
     \<Longrightarrow> \<not> m_walletSynchronized (fst (run cur os ops s))"
  by (induction ops arbitrary: s) (simp_all add: step_keeps_unsynchronized)

text \<open>A round of the save loop on a session that is not synchronized saves nothing.\<close>

lemma save_helper_body_unsynchronized:
  assumes "\<not> m_walletSynchronized w"
  shows "snd (fst (save_helper_body os eng name (w, fs))) (name @ ''.wallet'') = fs (name @ ''.wallet'')"
    and "snd (fst (save_helper_body os eng name (w, fs))) (tempFile_of os (name @ ''.wallet''))
           = fs (tempFile_of os (name @ ''.wallet''))"
    and "WalletSave \<notin> set (snd (save_helper_body os eng name (w, fs)))"
  using assms save_sentinel_not_temp [of name os]
  by (auto simp: save_helper_body_def saveWrapper_def fs_exists_def fs_rename_def Let_def
        split: option.splits)

text \<open>
  C10. While the wallet has not reached its first full synchronization, that is, from a
  session whose flag is false (as the constructor leaves it) through any operations
  none of which is \<^verbatim>\<open>synchronizationCompleted\<close>, \<^verbatim>\<open>saveWrapper\<close> returns false at
  once: the files are the ones it was given and it has made no call. A round of the
  save loop then leaves the wallet file and the temporary name as they were and does
  not ask the engine to save.
\<close>

theorem saveWrapper_before_first_synchronization:
  assumes "\<not> m_walletSynchronized w0"
    and "\<forall>x\<in>set ops. snd x \<noteq> SynchronizationCompleted"
    and "run cur os ops (w0, fs0) = (w, fs)"
  shows "saveWrapper os' eng w name fs = (False, fs, [])
         \<and> snd (fst (save_helper_body os' eng name (w, fs))) (name @ ''.wallet'')
             = fs (name @ ''.wallet'')
         \<and> snd (fst (save_helper_body os' eng name (w, fs))) (tempFile_of os' (name @ ''.wallet''))
             = fs (tempFile_of os' (name @ ''.wallet''))
         \<and> WalletSave \<notin> set (snd (save_helper_body os' eng name (w, fs)))"
proof -
  have "\<not> m_walletSynchronized (fst (run cur os ops (w0, fs0)))"
    using assms(1,2) by (intro run_keeps_unsynchronized) simp_all
  then have "\<not> m_walletSynchronized w"
    using assms(3) by simp
  then show ?thesis
    by (simp add: saveWrapper_def save_helper_body_unsynchronized)
qed

theorem saveWrapper_before_first_synchronization_witness:
  "\<not> m_walletSynchronized example_session
   \<and> snd (example_engine, GetBalance) \<noteq> SynchronizationCompleted
   \<and> run example_currency example_os [(example_engine, GetBalance)]
        (example_session, example_pending)
      = (example_session, example_pending)
   \<and> saveWrapper example_os example_engine example_session ''w'' example_pending
      = (False, example_pending, [])
   \<and> snd (fst (save_helper_body example_os example_engine ''w'' (example_session, example_pending)))
        ''w.wallet'' = Some ''old''
   \<and> snd (save_helper_body example_os example_engine ''w'' (example_session, example_pending))
      = [Rename ''w.save'' ''w.save_'', Wait 10]"
proof -
  have unsync: "\<not> m_walletSynchronized example_session"
    by (simp add: example_session_def mini_wallet_new_def)
  have ops: "\<forall>x\<in>set [(example_engine, GetBalance)]. snd x \<noteq> SynchronizationCompleted"
    by simp
  have ran: "run example_currency example_os [(example_engine, GetBalance)]
               (example_session, example_pending) = (example_session, example_pending)"
    by simp
  note before = saveWrapper_before_first_synchronization
      [OF unsync ops ran, of example_os example_engine "''w''"]
  have "snd (save_helper_body example_os example_engine ''w'' (example_session, example_pending))
          = [Rename ''w.save'' ''w.save_'', Wait 10]"
    using unsync
    by (simp add: save_helper_body_def saveWrapper_def example_pending_def fs_exists_def
          fs_rename_def Let_def)
  with before unsync ran show ?thesis
    by (simp add: example_pending_def example_files_def)
qed

text \<open>
  C3, as stated, fails: \<^verbatim>\<open>reset\<close> begins with \<^verbatim>\<open>m_walletSynchronized = false\<close>.
  On a synchronized session, one \<^verbatim>\<open>resetWrapper\<close> leaves the flag false.
\<close>

theorem reset_clears_synchronized_counterexample:
  "m_walletSynchronized example_synchronized
   \<and> \<not> m_walletSynchronized
         (fst (step example_currency example_os (example_engine, ResetWrapper)
                 (example_synchronized, Map.empty)))"
  by (simp add: example_synchronized_def synchronizationCompleted_def resetWrapper_def reset_def
        example_engine_def)

text \<open>
  C3, amended. The flag is set by \<^verbatim>\<open>synchronizationCompleted\<close> and cleared by
  \<^verbatim>\<open>reset\<close>, on every call and whatever the engine answers; every other operation
  on the session leaves a true flag true.
\<close>

theorem synchronized_cleared_by_reset_only:
  "(m_walletSynchronized w \<and> op \<noteq> ResetWrapper
      \<longrightarrow> m_walletSynchronized (fst (step cur os (eng, op) (w, fs))))
   \<and> m_walletSynchronized (fst (step cur os (eng, SynchronizationCompleted) (w, fs)))
   \<and> \<not> m_walletSynchronized (fst (step cur os (eng, ResetWrapper) (w, fs)))"
  by (cases op)
     (auto simp: resetWrapper_def reset_def synchronizationCompleted_def Let_def
           split: prod.splits sum.splits exn.splits option.splits)

theorem synchronized_cleared_by_reset_only_witness:
  "(m_walletSynchronized example_synchronized \<and> SaveWrapper ''w'' \<noteq> ResetWrapper)
   \<and> m_walletSynchronized
       (fst (step example_currency example_os (example_engine, SaveWrapper ''w'')
               (example_synchronized, [''w.wallet'' \<mapsto> ''old''])))"
  using synchronized_cleared_by_reset_only
          [of example_synchronized "SaveWrapper ''w''" example_currency example_os example_engine
              "[''w.wallet'' \<mapsto> ''old'']"]
  by (simp add: example_synchronized_def synchronizationCompleted_def)


subsection \<open>Persisting: \<^verbatim>\<open>saveWrapper\<close>\<close>

text \<open>
  C2. The claim holds of the discipline as the spec words it and fails on the code.
  \<^verbatim>\<open>saveWrapper\<close> calls \<^verbatim>\<open>openOutputFileStream\<close> inside a \<^verbatim>\<open>try\<close> whose handler
  renames the temporary back, but \<^verbatim>\<open>openOutputFileStream\<close> answers a failed open
  with \<^verbatim>\<open>return false\<close> and the result is dropped. With the wallet synchronized,
  \<^verbatim>\<open>w.wallet\<close> on disk, an open of \<^verbatim>\<open>w.wallet\<close> that fails and an engine that
  reports its save as done, \<^verbatim>\<open>saveWrapper\<close> moves the wallet to the temporary name,
  writes nothing, removes the temporary and returns true: no file is left.
\<close>

theorem saveWrapper_failed_open_loses_wallet:
  "saveWrapper (example_os\<lparr>open_fails := (\<lambda>p. p = ''w.wallet'')\<rparr>) example_engine
     example_synchronized ''w'' example_files
   = (True, Map.empty,
      [Rename ''w.wallet'' ''w.wallet.tmp.0000-0000'', WalletSave,
       Remove ''w.wallet.tmp.0000-0000''])"
  by (simp add: saveWrapper_def example_synchronized_def synchronizationCompleted_def
        example_files_def tempFile_of_def example_os_def example_engine_def fs_exists_def
        fs_rename_def fs_remove_def walletSaveWrapper_def Let_def)

text \<open>
  What the code does keep: when the open succeeds and the engine throws nothing but
  \<^verbatim>\<open>std::exception\<close>s, a wallet file that was there is, on return, either the bytes
  of a save reported done (and true is returned) or what it was before (and false is
  returned), and the temporary is gone.
\<close>

lemma saveWrapper_replaces_or_restores:
  assumes "m_walletSynchronized w"
    and "fs (name @ ''.wallet'') = Some old"
    and "\<not> open_fails os (name @ ''.wallet'')"
    and "snd (save_result eng) \<noteq> Inl Unknown_exception"
  shows "(fst (saveWrapper os eng w name fs)
            \<and> snd (save_result eng) = Inr None
            \<and> fst (snd (saveWrapper os eng w name fs)) (name @ ''.wallet'')
                = Some (fst (save_result eng))
          \<or> \<not> fst (saveWrapper os eng w name fs)
            \<and> fst (snd (saveWrapper os eng w name fs)) (name @ ''.wallet'') = Some old)
         \<and> fst (snd (saveWrapper os eng w name fs)) (tempFile_of os (name @ ''.wallet'')) = None"
proof -
  have ne: "tempFile_of os (name @ ''.wallet'') \<noteq> name @ ''.wallet''"
    by (rule tempFile_of_neq)
  obtain bytes r where sr: "save_result eng = (bytes, r)"
    by (cases "save_result eng")
  show ?thesis
    using assms ne sr
    by (cases r; cases "projl r")
       (auto simp: saveWrapper_def walletSaveWrapper_def fs_exists_def fs_rename_def fs_remove_def
             Let_def split: option.splits)
qed

subsection \<open>The transaction request\<close>

lemma find_str_bar: "CHR ''|'' \<notin> set a \<Longrightarrow> find_str ''|'' (a @ CHR ''|'' # rest) = Some (length a)"
  by (induction a) auto

lemma find_str_none: "CHR ''|'' \<notin> set a \<Longrightarrow> find_str ''|'' a = None"
  by (induction a) auto

text \<open>Text without a delimiter adds no argument; a field before a delimiter is filed.\<close>

lemma tokenize_tail: "CHR ''|'' \<notin> set content \<Longrightarrow> tokenize content idx args = args"
  by (subst tokenize.simps) (simp add: find_from_def find_str_none)

lemma tokenize_field:
  "CHR ''|'' \<notin> set a \<Longrightarrow>
   tokenize (a @ CHR ''|'' # rest) idx args =
     tokenize rest (idx + 1)
       (if idx = 0 \<or> idx = 1 \<or> idx = 2 then args @ [a]
        else if idx = 3 then (if a \<noteq> [] then args @ [''-p'', a] else args)
        else if idx = 4 then (if a \<noteq> [] then args @ [''-f'', a] else args)
        else args)"
  by (subst tokenize.simps) (simp add: find_from_def find_str_bar Let_def)

text \<open>
  C5. The claim is what the wire format needs and the code misses it: the tokenizer
  files a field only when a delimiter follows it, and what is left after the last
  delimiter is dropped. The request line \<^verbatim>\<open>3|9xAddr|1.5\<close> reaches the transfer as
  the two arguments \<^verbatim>\<open>3\<close> and \<^verbatim>\<open>9xAddr\<close>, without its amount, and is answered with
  "Parse error"; the line \<^verbatim>\<open>3|9xAddr|1.5|pay1234|0.01\<close> reaches it without its fee.
\<close>

theorem tokenize_drops_last_field:
  "tokenize (read_content [] (''3|9xAddr|1.5'' @ [CHR 0x0A])) 0 [] = [''3'', ''9xAddr'']
   \<and> tokenize (read_content [] (''3|9xAddr|1.5|pay1234|0.01'' @ [CHR 0x0A])) 0 []
       = [''3'', ''9xAddr'', ''1.5'', ''-p'', ''pay1234'']
   \<and> (case tx_helper_body example_currency example_os example_engine ''w''
              (example_synchronized,
               example_files(''w.txcast'' \<mapsto> ''3|9xAddr|1.5'' @ [CHR 0x0A])) of
         None \<Rightarrow> None
       | Some r \<Rightarrow> snd (fst r) ''w.txresult'') = Some ''Parse error''"
proof -
  have a: "tokenize (read_content [] (''3|9xAddr|1.5'' @ [CHR 0x0A])) 0 [] = [''3'', ''9xAddr'']"
    by code_simp
  have b: "tokenize (read_content [] (''3|9xAddr|1.5|pay1234|0.01'' @ [CHR 0x0A])) 0 []
             = [''3'', ''9xAddr'', ''1.5'', ''-p'', ''pay1234'']"
    by code_simp
  have opens: "open_fails example_os p = False" for p
    by (simp add: example_os_def)
  have "parseArguments example_currency [''3'', ''9xAddr''] = None"
    by (simp add: parseArguments_def example_currency_def)
  then have "(case tx_helper_body example_currency example_os example_engine ''w''
              (example_synchronized,
               example_files(''w.txcast'' \<mapsto> ''3|9xAddr|1.5'' @ [CHR 0x0A])) of
         None \<Rightarrow> None
       | Some r \<Rightarrow> snd (fst r) ''w.txresult'') = Some ''Parse error''"
    using a by (simp add: tx_helper_body_def transferWrapper_def transferGui_def opens Let_def)
  with a b show ?thesis
    by simp
qed

subsection \<open>Claiming a request\<close>


lemma remove_retry_done: "remove_retry n True p fs = (fs, [])"
  by (cases n) simp_all







subsection \<open>Opening a wallet\<close>

text \<open>
  C6. In \<^verbatim>\<open>tryToOpenWalletOrLoadKeysOrThrow\<close>: when there is no key file and the
  wallet file, opened, does not load (the engine completes the load with an error
  code), the function throws the runtime error "can't load wallet file '...', check
  password", also when the wallet file is the one just adopted from the bare requested
  path; when there is no key file, no wallet file and no file at the bare requested
  path, it throws the runtime error "wallet file '...' is not found" and has touched
  nothing. Either way the opening branch of \<^verbatim>\<open>init\<close> answers false, which ends the
  program.
\<close>

theorem tryToOpen_fatal_errors:
  "(fs (fst (prepareFileNames os walletFile)) = None
      \<and> fs (snd (prepareFileNames os walletFile)) = Some stream
      \<and> \<not> open_fails os (snd (prepareFileNames os walletFile))
      \<and> initAndLoad_result eng stream password = Inr (Some initError)
    \<longrightarrow> tryToOpenWalletOrLoadKeysOrThrow os eng walletFile password fs
        = (Inl (Runtime_error (''can't load wallet file ''
                                @ quoted (snd (prepareFileNames os walletFile))
                                @ '', check password'')),
           fs, [InitAndLoad stream])
      \<and> (m_wallet_file_arg w = walletFile
           \<longrightarrow> open_wallet os eng w password fs = (Inr False, w, fs, [InitAndLoad stream])))
   \<and> (fs (fst (prepareFileNames os walletFile)) = None
      \<and> fs (snd (prepareFileNames os walletFile)) = None
      \<and> fs walletFile = Some stream
      \<and> \<not> open_fails os (snd (prepareFileNames os walletFile))
      \<and> initAndLoad_result eng stream password = Inr (Some initError)
    \<longrightarrow> fst (tryToOpenWalletOrLoadKeysOrThrow os eng walletFile password fs)
        = Inl (Runtime_error (''can't load wallet file ''
                               @ quoted (snd (prepareFileNames os walletFile))
                               @ '', check password''))
      \<and> (m_wallet_file_arg w = walletFile
           \<longrightarrow> fst (open_wallet os eng w password fs) = Inr False))
   \<and> (fs (fst (prepareFileNames os walletFile)) = None
      \<and> fs (snd (prepareFileNames os walletFile)) = None
      \<and> fs walletFile = None
    \<longrightarrow> tryToOpenWalletOrLoadKeysOrThrow os eng walletFile password fs
        = (Inl (Runtime_error (''wallet file '' @ quoted (snd (prepareFileNames os walletFile))
                                @ '' is not found'')),
           fs, [])
      \<and> (m_wallet_file_arg w = walletFile
           \<longrightarrow> open_wallet os eng w password fs = (Inr False, w, fs, [])))"
  by (auto simp: open_wallet_def tryToOpenWalletOrLoadKeysOrThrow_def initAndLoadWallet_def
        fs_exists_def fs_rename_def Let_def)

theorem tryToOpen_fatal_errors_witness:
  "example_files (fst (prepareFileNames example_os ''w'')) = None
   \<and> example_files (snd (prepareFileNames example_os ''w'')) = Some ''old''
   \<and> \<not> open_fails example_os (snd (prepareFileNames example_os ''w''))
   \<and> initAndLoad_result example_wrong_password ''old'' ''secret'' = Inr (Some ''wrong password'')
   \<and> tryToOpenWalletOrLoadKeysOrThrow example_os example_wrong_password ''w'' ''secret'' example_files
       = (Inl (Runtime_error (''can't load wallet file '' @ quoted ''w.wallet''
                               @ '', check password'')),
          example_files, [InitAndLoad ''old''])
   \<and> m_wallet_file_arg example_session = ''w''
   \<and> open_wallet example_os example_wrong_password example_session ''secret'' example_files
       = (Inr False, example_session, example_files, [InitAndLoad ''old''])
   \<and> Map.empty (fst (prepareFileNames example_os ''w'')) = (None :: string option)
   \<and> Map.empty (snd (prepareFileNames example_os ''w'')) = (None :: string option)
   \<and> Map.empty ''w'' = (None :: string option)
   \<and> tryToOpenWalletOrLoadKeysOrThrow example_os example_wrong_password ''w'' ''secret'' Map.empty
       = (Inl (Runtime_error (''wallet file '' @ quoted ''w.wallet'' @ '' is not found'')),
          Map.empty, [])
   \<and> open_wallet example_os example_wrong_password example_session ''secret'' Map.empty
       = (Inr False, example_session, Map.empty, [])"
  using tryToOpen_fatal_errors
          [of example_files example_os "''w''" "''old''" example_wrong_password "''secret''"
              "''wrong password''" example_session]
        tryToOpen_fatal_errors
          [of Map.empty example_os "''w''" "''old''" example_wrong_password "''secret''"
              "''wrong password''" example_session]
  by (simp add: example_files_def example_os_def example_wrong_password_def example_engine_def
        example_session_def)

text \<open>
  C7. On a wallet file that loads, \<^verbatim>\<open>tryToOpenWalletOrLoadKeysOrThrow\<close> returns the
  wallet file's name with the files as they were, its only call being the load; run
  again on the files it has left (with the engine of the second start, which loads the
  file as well), it does the same: no key import, no rename, no store, whether or not a
  key file is there.
\<close>

theorem tryToOpen_twice_on_current_format:
  assumes "fs (snd (prepareFileNames os walletFile)) = Some stream"
    and "\<not> open_fails os (snd (prepareFileNames os walletFile))"
    and "initAndLoad_result eng1 stream password = Inr None"
    and "initAndLoad_result eng2 stream password = Inr None"
  shows "tryToOpenWalletOrLoadKeysOrThrow os eng1 walletFile password fs
           = (Inr (snd (prepareFileNames os walletFile)), fs, [InitAndLoad stream])
         \<and> tryToOpenWalletOrLoadKeysOrThrow os eng2 walletFile password
             (fst (snd (tryToOpenWalletOrLoadKeysOrThrow os eng1 walletFile password fs)))
           = (Inr (snd (prepareFileNames os walletFile)), fs, [InitAndLoad stream])"
  using assms
  by (simp add: tryToOpenWalletOrLoadKeysOrThrow_def initAndLoadWallet_def fs_exists_def Let_def)

theorem tryToOpen_twice_on_current_format_witness:
  "example_files (snd (prepareFileNames example_os ''w'')) = Some ''old''
   \<and> \<not> open_fails example_os (snd (prepareFileNames example_os ''w''))
   \<and> initAndLoad_result example_engine ''old'' ''secret'' = Inr None
   \<and> tryToOpenWalletOrLoadKeysOrThrow example_os example_engine ''w'' ''secret'' example_files
       = (Inr ''w.wallet'', example_files, [InitAndLoad ''old''])
   \<and> tryToOpenWalletOrLoadKeysOrThrow example_os example_engine ''w'' ''secret''
        (fst (snd (tryToOpenWalletOrLoadKeysOrThrow example_os example_engine ''w'' ''secret''
                     example_files)))
       = (Inr ''w.wallet'', example_files, [InitAndLoad ''old''])"
  using tryToOpen_twice_on_current_format
          [of example_files example_os "''w''" "''old''" example_engine "''secret''" example_engine]
  by (simp add: example_files_def example_os_def example_engine_def)

subsection \<open>Creating a wallet\<close>

lemma resolve_daemon_generate_new:
  "m_generate_new (snd (resolve_daemon os w)) = m_generate_new w"
  by (simp add: resolve_daemon_def Let_def split: sum.splits prod.splits)

lemma new_wallet_generate_new:
  "m_generate_new (fst (snd (new_wallet os eng w wallet_file password fs))) = m_generate_new w"
  by (simp add: new_wallet_def Let_def split: sum.splits exn.splits option.splits prod.splits)

lemma create_wallet_generate_new:
  "m_generate_new (fst (snd (create_wallet os eng w name pwd fs))) = m_generate_new w"
proof (cases "new_wallet os eng w name pwd fs")
  case (fields r w1 fs1 ev)
  with new_wallet_generate_new [of os eng w name pwd fs] have "m_generate_new w1 = m_generate_new w"
    by simp
  with fields show ?thesis
    by (cases r) (simp_all add: create_wallet_def Let_def split: bool.splits)
qed

lemma open_wallet_generate_new:
  "m_generate_new (fst (snd (open_wallet os eng w pwd fs))) = m_generate_new w"
  by (simp add: open_wallet_def split: prod.splits sum.splits exn.splits)

lemma init_wallet_generate_new:
  "m_generate_new (fst (snd (init_wallet os eng password w fs))) = m_generate_new w"
proof (cases "resolve_daemon os w")
  case (Pair e w3)
  with resolve_daemon_generate_new [of os w] have "m_generate_new w3 = m_generate_new w"
    by simp
  with Pair show ?thesis
    by (simp add: init_wallet_def Let_def create_wallet_generate_new open_wallet_generate_new
          split: option.splits)
qed

lemma init_wallet_collision:
  assumes "m_generate_new w \<noteq> []"
    and "fs_exists fs (snd (prepareFileNames os (m_generate_new w)))
         \<or> fs_exists fs (m_generate_new w @ ''.address'')"
  shows "fst (init_wallet os eng password w fs) \<noteq> Inr True
         \<and> (fs_exists fs (snd (prepareFileNames os (m_generate_new w)))
              \<longrightarrow> fst (init_wallet os eng password w fs) = Inr False)
         \<and> snd (snd (init_wallet os eng password w fs)) = (fs, [])"
proof (cases "fs_exists fs (snd (prepareFileNames os (m_generate_new w)))")
  case True
  with assms(1) show ?thesis
    by (simp add: init_wallet_def)
next
  case False
  with assms(2) have address: "fs_exists fs (m_generate_new w @ ''.address'')"
    by simp
  obtain e w3 where daemon: "resolve_daemon os w = (e, w3)"
    by (cases "resolve_daemon os w")
  with resolve_daemon_generate_new [of os w] have "m_generate_new w3 = m_generate_new w"
    by simp
  with False assms(1) address daemon show ?thesis
    by (simp add: init_wallet_def create_wallet_def Let_def split: option.splits)
qed

lemma init_cases:
  assumes "init os eng vm stdin w0 fs = Some x"
  shows "x = (Inr False, handle_command_line vm w0, fs, [])
         \<or> (\<exists>pw w1. init_wallet os eng pw w1 fs = x)"
proof (cases "m_daemon_address (handle_command_line vm w0) \<noteq> []
              \<and> (m_daemon_host (handle_command_line vm w0) \<noteq> []
                   \<or> m_daemon_port (handle_command_line vm w0) \<noteq> 0)")
  case True
  with assms show ?thesis
    by (simp add: init_def)
next
  case no_conflict: False
  show ?thesis
  proof (cases "m_generate_new (handle_command_line vm w0) = []
                \<and> m_wallet_file_arg (handle_command_line vm w0) = []")
    case False
    with no_conflict assms have "init_wallet os eng (arg_password vm) (handle_command_line vm w0) fs = x"
      by (simp add: init_def Let_def del: de_Morgan_conj)
    then show ?thesis
      by blast
  next
    case prompt: True
    show ?thesis
    proof (cases "ask_command stdin")
      case None
      with no_conflict prompt assms show ?thesis
        by (simp add: init_def Let_def split: if_splits)
    next
      case (Some a)
      obtain c rest where a: "a = (c, rest)"
        by (cases a)
      show ?thesis
      proof (cases "c = CHR ''E'' \<or> c = CHR ''e''")
        case True
        with no_conflict prompt assms Some a show ?thesis
          by (simp add: init_def Let_def split: if_splits)
      next
        case not_exit: False
        show ?thesis
        proof (cases "ask_name rest")
          case None
          with no_conflict prompt assms Some a not_exit show ?thesis
            by (simp add: init_def Let_def split: if_splits)
        next
          case (Some userInput)
          with no_conflict prompt assms \<open>ask_command stdin = Some a\<close> a not_exit
          have "\<exists>w1. init_wallet os eng (arg_password vm) w1 fs = x"
            by (simp add: init_def Let_def split: if_splits) blast+
          then show ?thesis
            by blast
        qed
      qed
    qed
  qed
qed

text \<open>
  C9. When \<^verbatim>\<open>init\<close> is asked for a new wallet (on the command line or at the
  prompt) and the wallet file of that name or its address file exists, \<^verbatim>\<open>init\<close> does
  not succeed, has made no call to the engine and has left every file as it was; when
  it is the wallet file that exists, it returns false.
\<close>

theorem init_refuses_existing_wallet_or_address_file:
  assumes "init os eng vm stdin w0 fs = Some (r, w, fs', ev)"
    and "m_generate_new w \<noteq> []"
    and "fs_exists fs (snd (prepareFileNames os (m_generate_new w)))
         \<or> fs_exists fs (m_generate_new w @ ''.address'')"
  shows "r \<noteq> Inr True
         \<and> (fs_exists fs (snd (prepareFileNames os (m_generate_new w))) \<longrightarrow> r = Inr False)
         \<and> fs' = fs \<and> ev = []"
proof -
  from init_cases [OF assms(1)]
  have "(r, fs', ev) = (Inr False, fs, [])
        \<or> (\<exists>pw w1. init_wallet os eng pw w1 fs = (r, w, fs', ev))"
    by blast
  then show ?thesis
  proof
    assume "(r, fs', ev) = (Inr False, fs, [])"
    then show ?thesis by simp
  next
    assume "\<exists>pw w1. init_wallet os eng pw w1 fs = (r, w, fs', ev)"
    then obtain pw w1 where eq: "init_wallet os eng pw w1 fs = (r, w, fs', ev)"
      by auto
    then have "m_generate_new w = m_generate_new w1"
      using init_wallet_generate_new [of os eng pw w1 fs] by simp
    with assms(2,3) init_wallet_collision [of w1 fs os eng pw] eq show ?thesis
      by auto
  qed
qed

theorem init_refuses_existing_wallet_or_address_file_witness:
  "init example_os example_engine example_new_wallet [] mini_wallet_new example_files
     = Some (Inr False, handle_command_line example_new_wallet mini_wallet_new, example_files, [])
   \<and> m_generate_new (handle_command_line example_new_wallet mini_wallet_new) \<noteq> []
   \<and> fs_exists example_files
        (snd (prepareFileNames example_os
                (m_generate_new (handle_command_line example_new_wallet mini_wallet_new))))
   \<and> Inr False \<noteq> (Inr True :: exn + bool)"
  using init_refuses_existing_wallet_or_address_file
          [of example_os example_engine example_new_wallet "[]" mini_wallet_new example_files
              "Inr False" "handle_command_line example_new_wallet mini_wallet_new" example_files "[]"]
  by (simp add: init_def init_wallet_def handle_command_line_def example_new_wallet_def
        mini_wallet_new_def example_os_def example_files_def fs_exists_def)


subsection \<open>Transfers\<close>

text \<open>
  A request line whose five fields are each followed by the delimiter reaches the
  transfer as the arguments of the request, an empty payment id or fee being left out.
\<close>

lemma tokenize_request:
  assumes "CHR ''|'' \<notin> set mixin" and "CHR ''|'' \<notin> set address" and "CHR ''|'' \<notin> set amount"
    and "CHR ''|'' \<notin> set paymentId" and "CHR ''|'' \<notin> set fee_str"
  shows "tokenize (mixin @ CHR ''|'' # address @ CHR ''|'' # amount @ CHR ''|'' # paymentId
                   @ CHR ''|'' # fee_str @ ''|'') 0 []
         = request_args mixin address amount
             (if paymentId = [] then None else Some paymentId)
             (if fee_str = [] then None else Some fee_str)"
  using assms by (simp add: tokenize_field tokenize_tail request_args_def)

text \<open>An option and its value add no destination.\<close>

lemma parse_loop_option_head:
  assumes "arg \<noteq> []" and "hd arg = CHR ''-''"
    and "parse_loop cur (arg # val # rest) cmd = Some cmd'"
  shows "\<exists>cmd1. dsts cmd1 = dsts cmd \<and> parse_loop cur rest cmd1 = Some cmd'"
proof (cases "arg = ''-p''")
  case True
  with assms(3) obtain ex where "parse_loop cur rest (cmd\<lparr>extra := ex\<rparr>) = Some cmd'"
    by (auto split: option.splits)
  then show ?thesis
    by (intro exI [of _ "cmd\<lparr>extra := ex\<rparr>"]) simp
next
  case not_p: False
  show ?thesis
  proof (cases "arg = ''-f''")
    case True
    with assms(3) obtain f where "parse_loop cur rest (cmd\<lparr>fee := f\<rparr>) = Some cmd'"
      by (auto split: option.splits if_splits)
    then show ?thesis
      by (intro exI [of _ "cmd\<lparr>fee := f\<rparr>"]) simp
  next
    case False
    with not_p assms have "parse_loop cur rest cmd = Some cmd'"
      by simp
    then show ?thesis
      by blast
  qed
qed

lemma parse_loop_options_only:
  assumes "parse_loop cur ((case paymentId of None \<Rightarrow> [] | Some p \<Rightarrow> [''-p'', p])
                   @ (case fee_str of None \<Rightarrow> [] | Some f \<Rightarrow> [''-f'', f])) cmd = Some cmd'"
  shows "dsts cmd' = dsts cmd"
proof -
  have one: "parse_loop cur [''-f'', f] c = Some c' \<Longrightarrow> dsts c' = dsts c" for f c c'
    using parse_loop_option_head [of "''-f''" cur f "[]" c c'] by auto
  show ?thesis
  proof (cases paymentId)
    case None
    with assms one show ?thesis
      by (cases fee_str) auto
  next
    case (Some p)
    with assms obtain c1 where c1: "dsts c1 = dsts cmd"
      "parse_loop cur (case fee_str of None \<Rightarrow> [] | Some f \<Rightarrow> [''-f'', f]) c1 = Some cmd'"
      using parse_loop_option_head [of "''-p''" cur p "(case fee_str of None \<Rightarrow> [] | Some f \<Rightarrow> [''-f'', f])" cmd cmd']
      by auto
    with one show ?thesis
      by (cases fee_str) auto
  qed
qed

lemma parse_loop_bad_fee:
  assumes "case parseAmount cur f of None \<Rightarrow> True | Some v \<Rightarrow> v < minimumFee cur"
  shows "parse_loop cur ((case paymentId of None \<Rightarrow> [] | Some p \<Rightarrow> [''-p'', p]) @ [''-f'', f]) cmd
           = None"
proof -
  have one: "parse_loop cur [''-f'', f] c = None" for c
    using assms by (auto split: option.splits)
  show ?thesis
  proof (cases paymentId)
    case None
    with one show ?thesis by simp
  next
    case (Some p)
    with one show ?thesis
      by (simp split: option.splits)
  qed
qed

lemma parseArguments_malformed:
  assumes "malformed cur mixin address amount fee_str"
  shows "parseArguments cur (request_args mixin address amount paymentId fee_str) = None"
proof (cases "fromString cur mixin")
  case None
  then show ?thesis
    by (simp add: parseArguments_def request_args_def)
next
  case (Some n)
  let ?opts = "(case paymentId of None \<Rightarrow> [] | Some p \<Rightarrow> [''-p'', p])
               @ (case fee_str of None \<Rightarrow> [] | Some f \<Rightarrow> [''-f'', f])"
  let ?cmd = "(TransferCommand_new cur)\<lparr>fake_outs_count := n\<rparr>"
  have args: "request_args mixin address amount paymentId fee_str = mixin # address # amount # ?opts"
    by (simp add: request_args_def)
  have empty: "dsts ?cmd = []"
    by (simp add: TransferCommand_new_def)
  have none: "parse_loop cur (address # amount # ?opts) ?cmd = None \<Longrightarrow> ?thesis"
    using Some by (simp add: parseArguments_def args)
  have nodest: "parse_loop cur (address # amount # ?opts) ?cmd = Some c \<Longrightarrow> dsts c = [] \<Longrightarrow> ?thesis" for c
    using Some by (simp add: parseArguments_def args)
  show ?thesis
  proof (cases "address \<noteq> [] \<and> hd address = CHR ''-''")
    case True
    show ?thesis
    proof (cases "parse_loop cur (address # amount # ?opts) ?cmd")
      case None
      then show ?thesis by (rule none)
    next
      case (Some c)
      with True obtain cmd1 where "dsts cmd1 = dsts ?cmd" "parse_loop cur ?opts cmd1 = Some c"
        using parse_loop_option_head [of address cur amount ?opts ?cmd c] by blast
      then have "dsts c = []"
        using parse_loop_options_only [of cur paymentId fee_str cmd1 c] empty by simp
      with Some show ?thesis by (rule nodest)
    qed
  next
    case plain: False
    show ?thesis
    proof (cases "parseAccountAddressString cur address")
      case False
      with plain have "parse_loop cur (address # amount # ?opts) ?cmd = None"
        by auto
      then show ?thesis by (rule none)
    next
      case addr: True
      show ?thesis
      proof (cases "parseAmount cur amount")
        case None
        with plain addr have "parse_loop cur (address # amount # ?opts) ?cmd = None"
          by auto
        then show ?thesis by (rule none)
      next
        case (Some a)
        show ?thesis
        proof (cases "a = 0")
          case True
          with plain addr Some have "parse_loop cur (address # amount # ?opts) ?cmd = None"
            by auto
          then show ?thesis by (rule none)
        next
          case False
          with assms addr Some \<open>fromString cur mixin = Some n\<close>
          obtain f where feq: "fee_str = Some f"
            and bad: "case parseAmount cur f of None \<Rightarrow> True | Some v \<Rightarrow> v < minimumFee cur"
            by (cases fee_str) (auto simp: malformed_def)
          have "parse_loop cur ((case paymentId of None \<Rightarrow> [] | Some p \<Rightarrow> [''-p'', p]) @ [''-f'', f])
                  (?cmd\<lparr>dsts := dsts ?cmd @ [(address, a)]\<rparr>) = None"
            using bad by (rule parse_loop_bad_fee)
          with plain addr Some False feq
          have "parse_loop cur (address # amount # ?opts) ?cmd = None"
            by auto
          then show ?thesis by (rule none)
        qed
      qed
    qed
  qed
qed

text \<open>
  A request with a mixin that is not a number, an address that does not parse, an
  amount that is zero (or does not parse) or a fee below the minimum (or that does not
  parse) is refused by \<^verbatim>\<open>transferGui\<close> with "Parse error": the files are untouched
  and the engine is not called. When these are the arguments the transaction loop has
  read from a pending request file, and both the request file and the result file
  open, the round removes the request, puts "Parse error" in the result file, and does
  nothing else; when the result file does not open, the reply reaches no file.
\<close>

lemma transferGui_rejects_malformed:
  assumes "malformed cur mixin address amount fee_str"
  shows "transferGui cur os eng w (request_args mixin address amount paymentId fee_str) fs
           = (Reply_error ''Parse error'', fs, [])"
    and "files (gui @ ''.txcast'') = Some stream
         \<Longrightarrow> tokenize (read_content [] stream) 0 []
               = request_args mixin address amount paymentId fee_str
         \<Longrightarrow> open_fails os (gui @ ''.txcast'') = False
         \<Longrightarrow> tx_helper_body cur os eng gui (w, files)
              = (if open_fails os (gui @ ''.txresult'')
                 then Some ((w, files(gui @ ''.txcast'' := None)),
                            [Remove (gui @ ''.txcast''), Wait 2])
                 else Some ((w, (files(gui @ ''.txcast'' := None))
                                  (gui @ ''.txresult'' \<mapsto> ''Parse error'')),
                            [Remove (gui @ ''.txcast''),
                             Write (gui @ ''.txresult'') ''Parse error'', Wait 2]))"
proof -
  have rejected: "transferGui cur os eng w (request_args mixin address amount paymentId fee_str) fs
                    = (Reply_error ''Parse error'', fs, [])" for fs
    using parseArguments_malformed [OF assms] by (simp add: transferGui_def)
  then show "transferGui cur os eng w (request_args mixin address amount paymentId fee_str) fs
           = (Reply_error ''Parse error'', fs, [])" .
  assume "files (gui @ ''.txcast'') = Some stream"
    "tokenize (read_content [] stream) 0 [] = request_args mixin address amount paymentId fee_str"
    "open_fails os (gui @ ''.txcast'') = False"
  with rejected show "tx_helper_body cur os eng gui (w, files)
              = (if open_fails os (gui @ ''.txresult'')
                 then Some ((w, files(gui @ ''.txcast'' := None)),
                            [Remove (gui @ ''.txcast''), Wait 2])
                 else Some ((w, (files(gui @ ''.txcast'' := None))
                                  (gui @ ''.txresult'' \<mapsto> ''Parse error'')),
                            [Remove (gui @ ''.txcast''),
                             Write (gui @ ''.txresult'') ''Parse error'', Wait 2]))"
    by (simp add: tx_helper_body_def transferWrapper_def fs_remove_def remove_retry_done Let_def)
qed

text \<open>
  C8 fails on a request in the wire format whose fee is below the minimum. The fee is
  the last field of the line, and the last field never reaches the transfer: of
  \<^verbatim>\<open>3|9xAddr|1.5|pay1234|0.0001\<close>, where 0.0001 is 10 units and the minimum fee is
  100, the transfer receives the mixin, the address, the amount and the payment id. It
  is sent with the minimum fee, the wallet is stored, and the result file holds the
  transaction hash, not an error.
\<close>

theorem sub_minimum_fee_request_is_sent:
  "parseAmount example_currency ''0.0001'' = Some 10
   \<and> minimumFee example_currency = 100
   \<and> malformed example_currency ''3'' ''9xAddr'' ''1.5'' (Some ''0.0001'')
   \<and> tokenize (read_content [] (''3|9xAddr|1.5|pay1234|0.0001'' @ [CHR 0x0A])) 0 []
       = [''3'', ''9xAddr'', ''1.5'', ''-p'', ''pay1234'']
   \<and> (case tx_helper_body example_currency example_os example_engine ''w''
              (example_synchronized,
               example_files(''w.txcast'' \<mapsto> ''3|9xAddr|1.5|pay1234|0.0001'' @ [CHR 0x0A])) of
         None \<Rightarrow> None
       | Some r \<Rightarrow> Some (snd (fst r) ''w.txresult'', snd r))
     = Some (Some ''ab12'',
             [Remove ''w.txcast'', SendTransaction [(''9xAddr'', 150000)] 100 ''pay1234'' 3 0,
              GetTransaction 0, StoreWallet ''w.wallet'', Write ''w.txresult'' ''ab12'', Wait 2])"
proof -
  have tok: "tokenize (read_content [] (''3|9xAddr|1.5|pay1234|0.0001'' @ [CHR 0x0A])) 0 []
               = [''3'', ''9xAddr'', ''1.5'', ''-p'', ''pay1234'']"
    by code_simp
  have opens: "open_fails example_os q = False" for q
    by (simp add: example_os_def)
  have bad: "malformed example_currency ''3'' ''9xAddr'' ''1.5'' (Some ''0.0001'')"
    by (simp add: malformed_def example_currency_def)
  have parsed: "parseArguments example_currency [''3'', ''9xAddr'', ''1.5'', ''-p'', ''pay1234'']
                   = Some \<lparr>fake_outs_count = 3, dsts = [(''9xAddr'', 150000)],
                            extra = ''pay1234'', fee = 100\<rparr>"
    by (simp add: parseArguments_def example_currency_def TransferCommand_new_def)
  have wfile: "m_wallet_file example_synchronized = ''w.wallet''"
    by (simp add: example_synchronized_def synchronizationCompleted_def example_session_def)
  have stored: "fst (storeWallet example_os example_engine ''w.wallet'' example_files) = Inr ()"
    by (simp add: storeWallet_def example_files_def fs_exists_def fs_rename_def
          example_os_def example_engine_def)
  have eng: "sendTransaction_result example_engine = Inr 0"
    "WALLET_LEGACY_INVALID_TRANSACTION_ID example_engine = - 1"
    "sendCompleted_result example_engine = None" "transaction_hash example_engine = ''ab12''"
    by (simp_all add: example_engine_def)
  have sent: "fst (transferWrapper example_currency example_os example_engine example_synchronized
                     [''3'', ''9xAddr'', ''1.5'', ''-p'', ''pay1234''] example_files)
                = Reply_hash ''ab12''"
    "snd (snd (transferWrapper example_currency example_os example_engine example_synchronized
                 [''3'', ''9xAddr'', ''1.5'', ''-p'', ''pay1234''] example_files))
       = [SendTransaction [(''9xAddr'', 150000)] 100 ''pay1234'' 3 0, GetTransaction 0,
          StoreWallet ''w.wallet'']"
    using stored
    by (auto simp: transferWrapper_def transferGui_def parsed eng wfile Let_def
          split: prod.splits sum.splits)
  have gone: "(example_files(''w.txcast'' \<mapsto> c))(''w.txcast'' := None) = example_files" for c
    by (simp add: example_files_def)
  have run: "(case tx_helper_body example_currency example_os example_engine ''w''
              (example_synchronized,
               example_files(''w.txcast'' \<mapsto> ''3|9xAddr|1.5|pay1234|0.0001'' @ [CHR 0x0A])) of
         None \<Rightarrow> None
       | Some r \<Rightarrow> Some (snd (fst r) ''w.txresult'', snd r))
     = Some (Some ''ab12'',
             [Remove ''w.txcast'', SendTransaction [(''9xAddr'', 150000)] 100 ''pay1234'' 3 0,
              GetTransaction 0, StoreWallet ''w.wallet'', Write ''w.txresult'' ''ab12'', Wait 2])"
    using tok sent gone
    by (simp add: opens tx_helper_body_def fs_remove_def remove_retry_done Let_def)
  from tok bad run show ?thesis
    by (simp add: example_currency_def)
qed

text \<open>
  What \<open>storeWallet\<close> leaves at the wallet file's name when the file was there: on
  success the bytes of a save reported done, on failure what the file held before.
\<close>

lemma storeWallet_outcome:
  assumes "fs p = Some old"
  shows "case storeWallet os eng p fs of
           (Inl e, fs') \<Rightarrow> fs' p = Some old
         | (Inr u, fs') \<Rightarrow>
             fs' p = Some (fst (save_result eng)) \<and> snd (save_result eng) = Inr None
             \<and> open_fails os p = False"
proof -
  have ne: "tempFile_of os p \<noteq> p"
    by (rule tempFile_of_neq)
  obtain bytes r where sr: "save_result eng = (bytes, r)"
    by (cases "save_result eng")
  show ?thesis
    using assms ne sr
    by (cases r)
       (auto simp: storeWallet_def fs_exists_def fs_rename_def Let_def split: option.splits)
qed

text \<open>
  C1. With the session's wallet file on disk, \<^verbatim>\<open>transferGui\<close> on any arguments, valid
  or not, ends in one of two ways. Either it returns the hash of the transaction: then
  the arguments parsed, the engine returned an identifier other than
  \<^verbatim>\<open>WALLET_LEGACY_INVALID_TRANSACTION_ID\<close>, the send completed without error, the save
  was reported done and the wallet file holds the saved bytes. Or it returns an error
  message and the wallet file holds what it held before the call.
\<close>

theorem transferGui_persists_or_keeps_wallet_file:
  assumes "fs (m_wallet_file w) = Some old"
  shows "case transferGui cur os eng w args fs of
           (Reply_hash h, fs', ev) \<Rightarrow>
             h = transaction_hash eng
             \<and> parseArguments cur args \<noteq> None
             \<and> (case sendTransaction_result eng of
                    Inl e \<Rightarrow> False
                  | Inr tx \<Rightarrow> tx \<noteq> WALLET_LEGACY_INVALID_TRANSACTION_ID eng)
             \<and> sendCompleted_result eng = None
             \<and> snd (save_result eng) = Inr None
             \<and> fs' (m_wallet_file w) = Some (fst (save_result eng))
         | (Reply_error m, fs', ev) \<Rightarrow> fs' (m_wallet_file w) = Some old"
proof (cases "parseArguments cur args")
  case None
  with assms show ?thesis
    by (simp add: transferGui_def)
next
  case (Some cmd)
  show ?thesis
  proof (cases "sendTransaction_result eng")
    case (Inl e)
    with Some assms show ?thesis
      by (cases e) (simp_all add: transferGui_def)
  next
    case (Inr tx)
    show ?thesis
    proof (cases "tx = WALLET_LEGACY_INVALID_TRANSACTION_ID eng \<or> sendCompleted_result eng \<noteq> None")
      case True
      with Some Inr assms show ?thesis
        by (auto simp: transferGui_def Let_def)
    next
      case False
      obtain r fs' where st: "storeWallet os eng (m_wallet_file w) fs = (r, fs')"
        by (cases "storeWallet os eng (m_wallet_file w) fs")
      with assms storeWallet_outcome [where fs = fs and p = "m_wallet_file w" and old = old
                                        and os = os and eng = eng]
      have "case r of Inl e \<Rightarrow> fs' (m_wallet_file w) = Some old
            | Inr u \<Rightarrow> fs' (m_wallet_file w) = Some (fst (save_result eng))
                       \<and> snd (save_result eng) = Inr None"
        by (cases r) simp_all
      with Some Inr False st show ?thesis
        by (cases r; cases "projl r") (auto simp: transferGui_def Let_def)
    qed
  qed
qed

theorem transferGui_persists_or_keeps_wallet_file_witness:
  "example_files (m_wallet_file example_synchronized) = Some ''old''
   \<and> fst (transferGui example_currency example_os example_engine example_synchronized
            [''3'', ''9xAddr'', ''1.5''] example_files) = Reply_hash ''ab12''
   \<and> fst (snd (transferGui example_currency example_os example_engine example_synchronized
                 [''3'', ''9xAddr'', ''1.5''] example_files)) ''w.wallet''
       = Some ''new wallet bytes''
   \<and> fst (transferGui example_currency example_os
              (example_engine\<lparr>save_result := (''new wal'', Inr (Some ''disk full''))\<rparr>)
              example_synchronized [''3'', ''9xAddr'', ''1.5''] example_files)
       = Reply_error ''disk full''
   \<and> fst (snd (transferGui example_currency example_os
                   (example_engine\<lparr>save_result := (''new wal'', Inr (Some ''disk full''))\<rparr>)
                   example_synchronized [''3'', ''9xAddr'', ''1.5''] example_files)) ''w.wallet''
       = Some ''old''"
proof -
  have wfile: "m_wallet_file example_synchronized = ''w.wallet''"
    by (simp add: example_synchronized_def synchronizationCompleted_def example_session_def)
  have there: "example_files (m_wallet_file example_synchronized) = Some ''old''"
    by (simp add: wfile example_files_def)
  have parsed: "parseArguments example_currency [''3'', ''9xAddr'', ''1.5'']
                  = Some \<lparr>fake_outs_count = 3, dsts = [(''9xAddr'', 150000)], extra = [], fee = 100\<rparr>"
    by (simp add: parseArguments_def example_currency_def TransferCommand_new_def)
  have stored: "fst (storeWallet example_os example_engine ''w.wallet'' example_files) = Inr ()"
    by (simp add: storeWallet_def example_files_def fs_exists_def fs_rename_def example_os_def
          example_engine_def tempFile_of_def Let_def)
  have failed: "fst (storeWallet example_os
                       (example_engine\<lparr>save_result := (''new wal'', Inr (Some ''disk full''))\<rparr>)
                       ''w.wallet'' example_files) = Inl (System_error ''disk full'')"
    by (simp add: storeWallet_def example_files_def fs_exists_def fs_rename_def example_os_def
          example_engine_def tempFile_of_def Let_def)
  have a: "fst (transferGui example_currency example_os example_engine example_synchronized
            [''3'', ''9xAddr'', ''1.5''] example_files) = Reply_hash ''ab12''"
    using stored
    by (auto simp: transferGui_def parsed wfile example_engine_def Let_def split: prod.splits sum.splits)
  have b: "fst (transferGui example_currency example_os
              (example_engine\<lparr>save_result := (''new wal'', Inr (Some ''disk full''))\<rparr>)
              example_synchronized [''3'', ''9xAddr'', ''1.5''] example_files)
             = Reply_error ''disk full''"
    using failed
    by (auto simp: transferGui_def parsed wfile example_engine_def Let_def split: prod.splits sum.splits)
  from transferGui_persists_or_keeps_wallet_file
         [where fs = example_files and w = example_synchronized and old = "''old''"
            and cur = example_currency and os = example_os and eng = example_engine
            and args = "[''3'', ''9xAddr'', ''1.5'']"]
       there a
  have c: "fst (snd (transferGui example_currency example_os example_engine example_synchronized
                 [''3'', ''9xAddr'', ''1.5''] example_files)) ''w.wallet''
             = Some ''new wallet bytes''"
    by (simp add: wfile example_engine_def split: prod.splits transfer_reply.splits)
  from transferGui_persists_or_keeps_wallet_file
         [where fs = example_files and w = example_synchronized and old = "''old''"
            and cur = example_currency and os = example_os
            and eng = "example_engine\<lparr>save_result := (''new wal'', Inr (Some ''disk full''))\<rparr>"
            and args = "[''3'', ''9xAddr'', ''1.5'']"]
       there b
  have d: "fst (snd (transferGui example_currency example_os
                   (example_engine\<lparr>save_result := (''new wal'', Inr (Some ''disk full''))\<rparr>)
                   example_synchronized [''3'', ''9xAddr'', ''1.5''] example_files)) ''w.wallet''
             = Some ''old''"
    by (simp add: wfile split: prod.splits transfer_reply.splits)
  from there a b c d show ?thesis
    by simp
qed

end
